theory Spec2Isabelle
  imports Main
begin

section \<open>Go strings, runes and the strconv functions the parser calls\<close>

text \<open>
  A Go string is a sequence of bytes: \<open>string\<close> (a \<open>char list\<close>), and \<open>len(s)\<close> is
  \<open>length s\<close>. A \<open>for _, ch := range s\<close> loop and the conversion \<open>string(runes)\<close> go
  through UTF-8. A rune is kept here as the bytes of its UTF-8 encoding, so that
  \<open>string(a[i:j])\<close> is the concatenation of the runes \<open>i..j\<close>.
\<close>

type_synonym rune = string

definition byte :: "char \<Rightarrow> int" where
  "byte c = of_char c"

definition in_range :: "int \<Rightarrow> int \<Rightarrow> char \<Rightarrow> bool" where
  "in_range lo hi c = (lo \<le> byte c \<and> byte c \<le> hi)"

definition RuneError :: rune where
  "RuneError = [char_of (0xEF::int), char_of (0xBF::int), char_of (0xBD::int)]"

text \<open>The number of bytes of the well-formed UTF-8 sequence at the head of the string,
  0 when there is none (Go then yields U+FFFD and advances by one byte).\<close>

fun utf8_width :: "string \<Rightarrow> nat" where
  "utf8_width [] = 0"
| "utf8_width (b0 # bs) =
     (if byte b0 < 0x80 then 1
      else if in_range 0xC2 0xDF b0 then
        (case bs of b1 # _ \<Rightarrow> if in_range 0x80 0xBF b1 then 2 else 0 | _ \<Rightarrow> 0)
      else if in_range 0xE0 0xEF b0 then
        (case bs of b1 # b2 # _ \<Rightarrow>
           if in_range (if byte b0 = 0xE0 then 0xA0 else 0x80)
                       (if byte b0 = 0xED then 0x9F else 0xBF) b1
              \<and> in_range 0x80 0xBF b2 then 3 else 0
         | _ \<Rightarrow> 0)
      else if in_range 0xF0 0xF4 b0 then
        (case bs of b1 # b2 # b3 # _ \<Rightarrow>
           if in_range (if byte b0 = 0xF0 then 0x90 else 0x80)
                       (if byte b0 = 0xF4 then 0x8F else 0xBF) b1
              \<and> in_range 0x80 0xBF b2 \<and> in_range 0x80 0xBF b3 then 4 else 0
         | _ \<Rightarrow> 0)
      else 0)"

text \<open>\<open>split\<close> of parser.go: the runes of a string, in order.\<close>

function split :: "string \<Rightarrow> rune list" where
  "split s =
     (if s = [] then []
      else if utf8_width s = 0 then RuneError # split (tl s)
      else take (utf8_width s) s # split (drop (utf8_width s) s))"
  by pat_completeness auto
termination
  by (relation "measure length") (auto simp: neq_Nil_conv)

declare split.simps [simp del]

text \<open>\<open>isDigit\<close> of the scanner, on a byte and on a rune.\<close>

definition isDigit :: "char \<Rightarrow> bool" where
  "isDigit ch = in_range 48 57 ch"

definition isDigit_rune :: "rune \<Rightarrow> bool" where
  "isDigit_rune r = (case r of [ch] \<Rightarrow> isDigit ch | _ \<Rightarrow> False)"

text \<open>\<open>strings.Contains(lit, ".")\<close>.\<close>

definition contains_dot :: "string \<Rightarrow> bool" where
  "contains_dot lit = (CHR ''.'' \<in> set lit)"

text \<open>\<open>fmt.Sprintf("%d", n)\<close>: the decimal digits, with a minus sign below zero.\<close>

definition digit_char :: "int \<Rightarrow> char" where
  "digit_char d = char_of (48 + d)"

function utoa :: "int \<Rightarrow> string" where
  "utoa n = (if n < 10 then [digit_char n] else utoa (n div 10) @ [digit_char (n mod 10)])"
  by pat_completeness auto
termination
  by (relation "measure nat") auto

declare utoa.simps [simp del]

definition itoa :: "int \<Rightarrow> string" where
  "itoa n = (if n < 0 then CHR ''-'' # utoa (- n) else utoa n)"

text \<open>
  \<open>strconv.ParseUint(s, 10, bitSize)\<close> and \<open>strconv.ParseInt(s, 10, bitSize)\<close>, after
  the Go library: the value and the error are returned together, and on a range
  error the value is the largest magnitude of the size and sign. \<open>n\<close> is a uint64 (an
  \<open>int\<close> from 0 to \<open>2 ^ 64 - 1\<close> here), so the sum \<open>n + d\<close> wraps at \<open>2 ^ 64\<close>.
\<close>

datatype NumErr = ErrSyntax | ErrRange

definition maxUint64 :: int where
  "maxUint64 = 2 ^ 64 - 1"

fun ParseUint_loop :: "int \<Rightarrow> int \<Rightarrow> string \<Rightarrow> int \<times> NumErr option" where
  "ParseUint_loop maxVal n [] = (n, None)"
| "ParseUint_loop maxVal n (c # cs) =
     (if \<not> isDigit c then (0, Some ErrSyntax)
      else if n \<ge> maxUint64 div 10 + 1 then (maxVal, Some ErrRange)
      else
        let n10 = n * 10; n1 = (n10 + (byte c - 48)) mod 2 ^ 64
        in if n1 < n10 \<or> n1 > maxVal then (maxVal, Some ErrRange)
           else ParseUint_loop maxVal n1 cs)"

definition ParseUint :: "string \<Rightarrow> nat \<Rightarrow> int \<times> NumErr option" where
  "ParseUint s bitSize =
     (if s = [] then (0, Some ErrSyntax) else ParseUint_loop (2 ^ bitSize - 1) 0 s)"

definition ParseInt :: "string \<Rightarrow> nat \<Rightarrow> int \<times> NumErr option" where
  "ParseInt s0 bitSize =
     (if s0 = [] then (0, Some ErrSyntax)
      else
        let neg = (hd s0 = CHR ''-'');
            s = (if hd s0 = CHR ''+'' \<or> hd s0 = CHR ''-'' then tl s0 else s0);
            (un, err) = ParseUint s bitSize;
            cutoff = 2 ^ (bitSize - 1)
        in if err = Some ErrSyntax then (0, err)
           else if \<not> neg \<and> un \<ge> cutoff then (cutoff - 1, Some ErrRange)
           else if neg \<and> un > cutoff then (- cutoff, Some ErrRange)
           else (if neg then - un else un, None))"

text \<open>\<open>strconv.Atoi\<close>: \<open>ParseInt(s, 10, 0)\<close>, where size 0 is the size of \<open>int\<close>,
  64 bits on the platforms the server is built for.\<close>

definition Atoi :: "string \<Rightarrow> int \<times> NumErr option" where
  "Atoi s = ParseInt s 64"

text \<open>The text of a \<open>*strconv.NumError\<close>. The quoting of the number is the plain one:
  the escapes of \<open>strconv.Quote\<close> do not arise for the text of a NUMBER token.\<close>

definition NumError_Error :: "string \<Rightarrow> string \<Rightarrow> NumErr \<Rightarrow> string" where
  "NumError_Error fn num e =
     ''strconv.'' @ fn @ '': parsing '' @ [char_of (34::int)] @ num @ [char_of (34::int)] @ '': ''
       @ (case e of ErrSyntax \<Rightarrow> ''invalid syntax'' | ErrRange \<Rightarrow> ''value out of range'')"

text \<open>\<open>strings.Join(a, sep)\<close>.\<close>

fun strings_Join :: "string list \<Rightarrow> string \<Rightarrow> string" where
  "strings_Join [] sep = []"
| "strings_Join [x] sep = x"
| "strings_Join (x # y # ys) sep = x @ sep @ strings_Join (y # ys) sep"

text \<open>A value of Go's \<open>int\<close>, \<open>int64\<close> or \<open>time.Duration\<close> is an \<open>int\<close> between
  \<open>- 2 ^ 63\<close> and \<open>2 ^ 63 - 1\<close>; arithmetic on it wraps.\<close>

definition wrap64 :: "int \<Rightarrow> int" where
  "wrap64 x = (x + 2 ^ 63) mod 2 ^ 64 - 2 ^ 63"

text \<open>Go's \<open>/\<close> and \<open>%\<close> on integers truncate towards zero.\<close>

definition go_div :: "int \<Rightarrow> int \<Rightarrow> int" where
  "go_div a b = sgn a * sgn b * (\<bar>a\<bar> div \<bar>b\<bar>)"

definition go_mod :: "int \<Rightarrow> int \<Rightarrow> int" where
  "go_mod a b = a - b * go_div a b"

section \<open>Positions and parse errors\<close>

text \<open>\<open>Pos\<close> is declared with the scanner: a zero-based line and character, both
  of Go's \<open>int\<close>.\<close>

record Pos =
  Line :: int
  Char' :: int

record ParseError =
  Message :: string
  Found :: string
  Expected :: "string list"
  Pos :: Pos

definition newParseError :: "string \<Rightarrow> string list \<Rightarrow> Pos \<Rightarrow> ParseError" where
  "newParseError found expected pos =
     \<lparr>Message = [], Found = found, Expected = expected, Pos = pos\<rparr>"

text \<open>A \<open>&ParseError{Message: msg, Pos: pos}\<close> literal: the other fields are zero.\<close>

definition messageError :: "string \<Rightarrow> Pos \<Rightarrow> ParseError" where
  "messageError msg pos = \<lparr>Message = msg, Found = [], Expected = [], Pos = pos\<rparr>"

definition Error :: "ParseError \<Rightarrow> string" where
  "Error e =
     (if Message e \<noteq> [] then
        Message e @ '' at line '' @ itoa (wrap64 (Line (Pos e) + 1))
          @ '', char '' @ itoa (wrap64 (Char' (Pos e) + 1))
      else
        ''found '' @ Found e @ '', expected '' @ strings_Join (Expected e) '', ''
          @ '' at line '' @ itoa (wrap64 (Line (Pos e) + 1))
          @ '', char '' @ itoa (wrap64 (Char' (Pos e) + 1)))"

section \<open>Durations\<close>

type_synonym Duration = int

definition Microsecond :: Duration where "Microsecond = 1000"
definition Millisecond :: Duration where "Millisecond = 1000 * Microsecond"
definition Second :: Duration where "Second = 1000 * Millisecond"
definition Minute :: Duration where "Minute = 60 * Second"
definition Hour :: Duration where "Hour = 60 * Minute"

definition ErrInvalidDuration :: string where
  "ErrInvalidDuration = ''invalid duration''"

text \<open>The micro sign U+00B5 in UTF-8.\<close>

definition micro_sign :: string where
  "micro_sign = [char_of (0xC2::int), char_of (0xB5::int)]"

definition ParseDuration :: "string \<Rightarrow> string + Duration" where
  "ParseDuration s =
     (if length s = 0 then Inl ErrInvalidDuration
      else if length s = 1 then
        (case ParseInt s 64 of
           (n, None) \<Rightarrow> Inr (wrap64 (n * Microsecond))
         | (n, Some err) \<Rightarrow> Inl ErrInvalidDuration)
      else
        let a = split s;
            (num, uom) =
              (if isDigit_rune (a ! (length a - 1)) then (s, ''u'')
               else if length s > 2 \<and> drop (length s - 2) s = ''ms''
                 then (concat (take (length a - 2) a), ''ms'')
               else (concat (take (length a - 1) a), concat (drop (length a - 1) a)))
        in case ParseInt num 64 of
             (n, Some err) \<Rightarrow> Inl ErrInvalidDuration
           | (n, None) \<Rightarrow>
               if uom = ''u'' \<or> uom = micro_sign then Inr (wrap64 (n * Microsecond))
               else if uom = ''ms'' then Inr (wrap64 (n * Millisecond))
               else if uom = ''s'' then Inr (wrap64 (n * Second))
               else if uom = ''m'' then Inr (wrap64 (n * Minute))
               else if uom = ''h'' then Inr (wrap64 (n * Hour))
               else if uom = ''d'' then Inr (wrap64 (wrap64 (n * 24) * Hour))
               else if uom = ''w'' then Inr (wrap64 (wrap64 (wrap64 (n * 7) * 24) * Hour))
               else Inl ErrInvalidDuration)"

definition FormatDuration :: "Duration \<Rightarrow> string" where
  "FormatDuration d =
     (if d = 0 then ''0s''
      else if go_mod d (7 * 24 * Hour) = 0 then itoa (go_div d (7 * 24 * Hour)) @ ''w''
      else if go_mod d (24 * Hour) = 0 then itoa (go_div d (24 * Hour)) @ ''d''
      else if go_mod d Hour = 0 then itoa (go_div d Hour) @ ''h''
      else if go_mod d Minute = 0 then itoa (go_div d Minute) @ ''m''
      else if go_mod d Second = 0 then itoa (go_div d Second) @ ''s''
      else if go_mod d Millisecond = 0 then itoa (go_div d Millisecond) @ ''ms''
      else itoa (go_div d Microsecond))"

section \<open>Tokens\<close>

text \<open>
  Modelled from the spec: token.go, which declares \<open>Token\<close>, its constants, their names
  (\<open>tokens\<close> and \<open>String\<close>), \<open>isOperator\<close>, \<open>Precedence\<close> and \<open>tokstr\<close>, is not
  among the sources. A token is an integer constant, as in Go; the numbers only keep
  the tokens of the spec's list apart, with \<open>ILLEGAL\<close> the zero value.
\<close>

datatype Token = Tok nat

abbreviation ILLEGAL :: Token where "ILLEGAL \<equiv> Tok 0"
abbreviation EOF :: Token where "EOF \<equiv> Tok 1"
abbreviation WS :: Token where "WS \<equiv> Tok 2"
abbreviation IDENT :: Token where "IDENT \<equiv> Tok 3"
abbreviation NUMBER :: Token where "NUMBER \<equiv> Tok 4"
abbreviation DURATION_VAL :: Token where "DURATION_VAL \<equiv> Tok 5"
abbreviation STRING :: Token where "STRING \<equiv> Tok 6"
abbreviation TRUE :: Token where "TRUE \<equiv> Tok 7"
abbreviation FALSE :: Token where "FALSE \<equiv> Tok 8"
abbreviation REGEX :: Token where "REGEX \<equiv> Tok 9"
abbreviation ADD :: Token where "ADD \<equiv> Tok 10"
abbreviation SUB :: Token where "SUB \<equiv> Tok 11"
abbreviation MUL :: Token where "MUL \<equiv> Tok 12"
abbreviation DIV :: Token where "DIV \<equiv> Tok 13"
abbreviation AND :: Token where "AND \<equiv> Tok 14"
abbreviation OR :: Token where "OR \<equiv> Tok 15"
abbreviation EQ :: Token where "EQ \<equiv> Tok 16"
abbreviation NEQ :: Token where "NEQ \<equiv> Tok 17"
abbreviation LT :: Token where "LT \<equiv> Tok 18"
abbreviation LTE :: Token where "LTE \<equiv> Tok 19"
abbreviation GT :: Token where "GT \<equiv> Tok 20"
abbreviation GTE :: Token where "GTE \<equiv> Tok 21"
abbreviation LPAREN :: Token where "LPAREN \<equiv> Tok 22"
abbreviation RPAREN :: Token where "RPAREN \<equiv> Tok 23"
abbreviation COMMA :: Token where "COMMA \<equiv> Tok 24"
abbreviation SEMICOLON :: Token where "SEMICOLON \<equiv> Tok 25"
abbreviation DOT :: Token where "DOT \<equiv> Tok 26"
abbreviation ALL' :: Token where "ALL' \<equiv> Tok 27"
abbreviation ALTER :: Token where "ALTER \<equiv> Tok 28"
abbreviation AS :: Token where "AS \<equiv> Tok 29"
abbreviation ASC :: Token where "ASC \<equiv> Tok 30"
abbreviation BEGIN :: Token where "BEGIN \<equiv> Tok 31"
abbreviation BY :: Token where "BY \<equiv> Tok 32"
abbreviation CREATE :: Token where "CREATE \<equiv> Tok 33"
abbreviation CONTINUOUS :: Token where "CONTINUOUS \<equiv> Tok 34"
abbreviation DATABASE :: Token where "DATABASE \<equiv> Tok 35"
abbreviation DATABASES :: Token where "DATABASES \<equiv> Tok 36"
abbreviation DEFAULT :: Token where "DEFAULT \<equiv> Tok 37"
abbreviation DELETE :: Token where "DELETE \<equiv> Tok 38"
abbreviation DESC :: Token where "DESC \<equiv> Tok 39"
abbreviation DROP :: Token where "DROP \<equiv> Tok 40"
abbreviation DURATION :: Token where "DURATION \<equiv> Tok 41"
abbreviation END :: Token where "END \<equiv> Tok 42"
abbreviation FIELD :: Token where "FIELD \<equiv> Tok 43"
abbreviation FROM :: Token where "FROM \<equiv> Tok 44"
abbreviation GRANT :: Token where "GRANT \<equiv> Tok 45"
abbreviation GROUP :: Token where "GROUP \<equiv> Tok 46"
abbreviation IN :: Token where "IN \<equiv> Tok 47"
abbreviation INTO :: Token where "INTO \<equiv> Tok 48"
abbreviation KEY :: Token where "KEY \<equiv> Tok 49"
abbreviation KEYS :: Token where "KEYS \<equiv> Tok 50"
abbreviation LIMIT :: Token where "LIMIT \<equiv> Tok 51"
abbreviation MEASUREMENT :: Token where "MEASUREMENT \<equiv> Tok 52"
abbreviation MEASUREMENTS :: Token where "MEASUREMENTS \<equiv> Tok 53"
abbreviation OFFSET :: Token where "OFFSET \<equiv> Tok 54"
abbreviation ON :: Token where "ON \<equiv> Tok 55"
abbreviation ORDER :: Token where "ORDER \<equiv> Tok 56"
abbreviation PASSWORD :: Token where "PASSWORD \<equiv> Tok 57"
abbreviation POLICY :: Token where "POLICY \<equiv> Tok 58"
abbreviation POLICIES :: Token where "POLICIES \<equiv> Tok 59"
abbreviation PRIVILEGES :: Token where "PRIVILEGES \<equiv> Tok 60"
abbreviation QUERIES :: Token where "QUERIES \<equiv> Tok 61"
abbreviation QUERY :: Token where "QUERY \<equiv> Tok 62"
abbreviation READ :: Token where "READ \<equiv> Tok 63"
abbreviation REPLICATION :: Token where "REPLICATION \<equiv> Tok 64"
abbreviation RETENTION :: Token where "RETENTION \<equiv> Tok 65"
abbreviation REVOKE :: Token where "REVOKE \<equiv> Tok 66"
abbreviation SELECT :: Token where "SELECT \<equiv> Tok 67"
abbreviation SERIES :: Token where "SERIES \<equiv> Tok 68"
abbreviation SHOW :: Token where "SHOW \<equiv> Tok 69"
abbreviation TAG :: Token where "TAG \<equiv> Tok 70"
abbreviation TO :: Token where "TO \<equiv> Tok 71"
abbreviation USER :: Token where "USER \<equiv> Tok 72"
abbreviation USERS :: Token where "USERS \<equiv> Tok 73"
abbreviation VALUES :: Token where "VALUES \<equiv> Tok 74"
abbreviation WHERE :: Token where "WHERE \<equiv> Tok 75"
abbreviation WITH :: Token where "WITH \<equiv> Tok 76"
abbreviation WRITE :: Token where "WRITE \<equiv> Tok 77"

definition tokens :: "(Token \<times> string) list" where
  "tokens =
     [(ILLEGAL, ''ILLEGAL''), (EOF, ''EOF''), (WS, ''WS''), (IDENT, ''IDENT''),
      (NUMBER, ''NUMBER''), (DURATION_VAL, ''DURATION_VAL''), (STRING, ''STRING''),
      (TRUE, ''TRUE''), (FALSE, ''FALSE''), (REGEX, ''REGEX''), (ADD, ''+''), (SUB, ''-''),
      (MUL, ''*''), (DIV, ''/''), (AND, ''AND''), (OR, ''OR''), (EQ, ''=''), (NEQ, ''!=''),
      (LT, ''<''), (LTE, ''<=''), (GT, ''>''), (GTE, ''>=''), (LPAREN, ''(''),
      (RPAREN, '')''), (COMMA, '',''), (SEMICOLON, '';''), (DOT, ''.''), (ALL', ''ALL''),
      (ALTER, ''ALTER''), (AS, ''AS''), (ASC, ''ASC''), (BEGIN, ''BEGIN''), (BY, ''BY''),
      (CREATE, ''CREATE''), (CONTINUOUS, ''CONTINUOUS''), (DATABASE, ''DATABASE''),
      (DATABASES, ''DATABASES''), (DEFAULT, ''DEFAULT''), (DELETE, ''DELETE''),
      (DESC, ''DESC''), (DROP, ''DROP''), (DURATION, ''DURATION''), (END, ''END''),
      (FIELD, ''FIELD''), (FROM, ''FROM''), (GRANT, ''GRANT''), (GROUP, ''GROUP''),
      (IN, ''IN''), (INTO, ''INTO''), (KEY, ''KEY''), (KEYS, ''KEYS''), (LIMIT, ''LIMIT''),
      (MEASUREMENT, ''MEASUREMENT''), (MEASUREMENTS, ''MEASUREMENTS''), (OFFSET, ''OFFSET''),
      (ON, ''ON''), (ORDER, ''ORDER''), (PASSWORD, ''PASSWORD''), (POLICY, ''POLICY''),
      (POLICIES, ''POLICIES''), (PRIVILEGES, ''PRIVILEGES''), (QUERIES, ''QUERIES''),
      (QUERY, ''QUERY''), (READ, ''READ''), (REPLICATION, ''REPLICATION''),
      (RETENTION, ''RETENTION''), (REVOKE, ''REVOKE''), (SELECT, ''SELECT''),
      (SERIES, ''SERIES''), (SHOW, ''SHOW''), (TAG, ''TAG''), (TO, ''TO''), (USER, ''USER''),
      (USERS, ''USERS''), (VALUES, ''VALUES''), (WHERE, ''WHERE''), (WITH, ''WITH''),
      (WRITE, ''WRITE'')]"

definition Token_String :: "Token \<Rightarrow> string" where
  "Token_String tok = (case map_of tokens tok of Some s \<Rightarrow> s | None \<Rightarrow> [])"

text \<open>Modelled from the spec: the operators are EQ, NEQ, LT, LTE, GT, GTE, ADD, SUB,
  MUL, DIV, AND and OR.\<close>

definition isOperator :: "Token \<Rightarrow> bool" where
  "isOperator tok = (tok \<in> set [ADD, SUB, MUL, DIV, AND, OR, EQ, NEQ, LT, LTE, GT, GTE])"

text \<open>Modelled from the spec: MUL, DIV = 4; ADD, SUB = 3; the comparisons = 2;
  AND = 1; OR = 1; every other token 0.\<close>

definition Precedence :: "Token \<Rightarrow> int" where
  "Precedence tok =
     (if tok = MUL \<or> tok = DIV then 4
      else if tok = ADD \<or> tok = SUB then 3
      else if tok \<in> set [EQ, NEQ, LT, LTE, GT, GTE] then 2
      else if tok = AND \<or> tok = OR then 1
      else 0)"

text \<open>Modelled from the spec: the found-token text of an error is the literal of the
  token when it has one, and the name of the token otherwise.\<close>

definition tokstr :: "Token \<Rightarrow> string \<Rightarrow> string" where
  "tokstr tok lit = (if lit \<noteq> [] then lit else Token_String tok)"

section \<open>The scanner with its one-token buffer\<close>

text \<open>
  Modelled from the spec: scanner.go is not among the sources. The scanner is what it
  will still produce: a list of \<open>(Token, Pos, Literal)\<close> triples, after which it produces
  EOF (at position \<open>eof\<close>) for ever. The buffer holds the most recent triple;
  \<open>Unscan\<close> marks it as live and the next \<open>Scan\<close> returns it. The parser has no other
  state, so the buffered scanner is the state of the parser.
\<close>

type_synonym triple = "Token \<times> Pos \<times> string"

record Parser =
  input :: "triple list"
  eof :: Pos
  buf :: triple
  live :: bool

definition NewParser :: "triple list \<Rightarrow> Pos \<Rightarrow> Parser" where
  "NewParser ts e = \<lparr>input = ts, eof = e, buf = (ILLEGAL, \<lparr>Line = 0, Char' = 0\<rparr>, []), live = False\<rparr>"

definition scan :: "Parser \<Rightarrow> triple \<times> Parser" where
  "scan p =
     (if live p then (buf p, p\<lparr>live := False\<rparr>)
      else case input p of
             [] \<Rightarrow> ((EOF, eof p, []), p\<lparr>buf := (EOF, eof p, [])\<rparr>)
           | t # ts \<Rightarrow> (t, p\<lparr>input := ts, buf := t\<rparr>))"

definition unscan :: "Parser \<Rightarrow> Parser" where
  "unscan p = p\<lparr>live := True\<rparr>"

definition scanIgnoreWhitespace :: "Parser \<Rightarrow> triple \<times> Parser" where
  "scanIgnoreWhitespace p =
     (case scan p of ((tok, pos, lit), p1) \<Rightarrow>
        if tok = WS then scan p1 else ((tok, pos, lit), p1))"

definition consumeWhitespace :: "Parser \<Rightarrow> Parser" where
  "consumeWhitespace p =
     (case scan p of ((tok, pos, lit), p1) \<Rightarrow> if tok \<noteq> WS then unscan p1 else p1)"

text \<open>A parser method returns its value with the parser it leaves behind, or the
  error that ends the parse.\<close>

type_synonym 'a result = "ParseError + 'a \<times> Parser"

definition andThen :: "'a result \<Rightarrow> ('a \<Rightarrow> Parser \<Rightarrow> 'b result) \<Rightarrow> 'b result" where
  "andThen m f = (case m of Inl e \<Rightarrow> Inl e | Inr (x, p) \<Rightarrow> f x p)"

text \<open>The number of tokens that are still to be read, the end of the input apart.\<close>

definition remaining :: "Parser \<Rightarrow> nat" where
  "remaining p =
     length (filter (\<lambda>t. fst t \<noteq> EOF) (input p))
       + (if live p \<and> fst (buf p) \<noteq> EOF then 1 else 0)"

section \<open>The syntax tree\<close>

text \<open>
  Modelled from the spec: ast.go is not among the sources; the nodes and their fields
  are those of the spec's data model and of the assignments of the parser. A pointer or
  interface that may be nil is an \<open>option\<close>. The values that Go's libraries compute from
  a literal (a float64, a \<open>time.Time\<close>, a compiled regular expression) are the type
  parameters \<open>'f\<close>, \<open>'t\<close> and \<open>'r\<close>, and the three library functions are handed to the
  parser.
\<close>

record ('f, 't, 'r) golib =
  ParseFloat :: "string \<Rightarrow> 'f option"
  time_Parse :: "string \<Rightarrow> string \<Rightarrow> 't option"
  regexp_Compile :: "string \<Rightarrow> string + 'r"

datatype ('f, 't, 'r) Expr =
    BinaryExpr "('f, 't, 'r) Expr" Token "('f, 't, 'r) Expr"
  | ParenExpr "('f, 't, 'r) Expr"
  | Call string "('f, 't, 'r) Expr list"
  | VarRef string
  | Wildcard
  | NumberLiteral 'f
  | StringLiteral string
  | BooleanLiteral bool
  | TimeLiteral 't
  | DurationLiteral Duration
  | RegexLiteral 'r

record Measurement =
  Name :: string

datatype Source = Measurement' Measurement | Join "Measurement list" | Merge "Measurement list"

record ('f, 't, 'r) Field =
  Expr :: "('f, 't, 'r) Expr"
  Alias :: string

record ('f, 't, 'r) Dimension =
  Expr :: "('f, 't, 'r) Expr"

record SortField =
  Name :: string
  Ascending :: bool

record Target =
  Measurement :: string
  Database :: string

datatype Privilege = ReadPrivilege | WritePrivilege | AllPrivileges

record ('f, 't, 'r) SelectStatement =
  Fields :: "('f, 't, 'r) Field list"
  Target :: "Target option"
  Source :: "Source option"
  Condition :: "('f, 't, 'r) Expr option"
  Dimensions :: "('f, 't, 'r) Dimension list"
  SortFields :: "SortField list"
  Limit :: int
  Offset :: int

record ('f, 't, 'r) DeleteStatement =
  Source :: "Source option"
  Condition :: "('f, 't, 'r) Expr option"

record ('f, 't, 'r) ShowSeriesStatement =
  Source :: "Source option"
  Condition :: "('f, 't, 'r) Expr option"
  SortFields :: "SortField list"
  Limit :: int
  Offset :: int

record ('f, 't, 'r) ShowMeasurementsStatement =
  Source :: "Source option"
  Condition :: "('f, 't, 'r) Expr option"
  SortFields :: "SortField list"
  Limit :: int
  Offset :: int

record ('f, 't, 'r) ShowTagKeysStatement =
  Source :: "Source option"
  Condition :: "('f, 't, 'r) Expr option"
  SortFields :: "SortField list"
  Limit :: int
  Offset :: int

record ('f, 't, 'r) ShowFieldKeysStatement =
  Source :: "Source option"
  Condition :: "('f, 't, 'r) Expr option"
  SortFields :: "SortField list"
  Limit :: int
  Offset :: int

record ('f, 't, 'r) ShowTagValuesStatement =
  Source :: "Source option"
  TagKeys :: "string list"
  Condition :: "('f, 't, 'r) Expr option"
  SortFields :: "SortField list"
  Limit :: int
  Offset :: int

record ShowRetentionPoliciesStatement =
  Database :: string

record CreateDatabaseStatement =
  Name :: string

record DropDatabaseStatement =
  Name :: string

record CreateRetentionPolicyStatement =
  Name :: string
  Database :: string
  Duration :: Duration
  Replication :: int
  Default :: bool

record AlterRetentionPolicyStatement =
  Name :: string
  Database :: string
  Duration :: "Duration option"
  Replication :: "int option"
  Default :: bool

record DropRetentionPolicyStatement =
  Name :: string
  Database :: string

record CreateUserStatement =
  Name :: string
  Password :: string
  Privilege :: "Privilege option"

record DropUserStatement =
  Name :: string

record GrantStatement =
  Privilege :: Privilege
  On :: string
  User :: string

record RevokeStatement =
  Privilege :: Privilege
  On :: string
  User :: string

record ('f, 't, 'r) CreateContinuousQueryStatement =
  Name :: string
  Database :: string
  Source :: "('f, 't, 'r) SelectStatement"

record DropContinuousQueryStatement =
  Name :: string

record DropMeasurementStatement =
  Name :: string

record ('f, 't, 'r) DropSeriesStatement =
  Source :: "Source option"
  Condition :: "('f, 't, 'r) Expr option"
  SeriesID :: int

datatype ('f, 't, 'r) Statement =
    Select "('f, 't, 'r) SelectStatement"
  | Delete "('f, 't, 'r) DeleteStatement"
  | ShowSeries "('f, 't, 'r) ShowSeriesStatement"
  | ShowMeasurements "('f, 't, 'r) ShowMeasurementsStatement"
  | ShowTagKeys "('f, 't, 'r) ShowTagKeysStatement"
  | ShowFieldKeys "('f, 't, 'r) ShowFieldKeysStatement"
  | ShowTagValues "('f, 't, 'r) ShowTagValuesStatement"
  | ShowRetentionPolicies ShowRetentionPoliciesStatement
  | ShowDatabases
  | ShowUsers
  | ShowContinuousQueries
  | CreateDatabase CreateDatabaseStatement
  | DropDatabase DropDatabaseStatement
  | CreateRetentionPolicy CreateRetentionPolicyStatement
  | AlterRetentionPolicy AlterRetentionPolicyStatement
  | DropRetentionPolicy DropRetentionPolicyStatement
  | CreateUser CreateUserStatement
  | DropUser DropUserStatement
  | Grant GrantStatement
  | Revoke RevokeStatement
  | CreateContinuousQuery "('f, 't, 'r) CreateContinuousQueryStatement"
  | DropContinuousQuery DropContinuousQueryStatement
  | DropMeasurement DropMeasurementStatement
  | DropSeries "('f, 't, 'r) DropSeriesStatement"

record ('f, 't, 'r) Query =
  Statements :: "('f, 't, 'r) Statement list"

section \<open>The parser: expressions\<close>

text \<open>\<open>isDateString\<close> and \<open>isDateTimeString\<close>.\<close>

definition date_prefix :: "string \<Rightarrow> bool" where
  "date_prefix s =
     (length s \<ge> 10 \<and> (\<forall>i \<in> set [0, 1, 2, 3, 5, 6, 8, 9]. isDigit (s ! i))
        \<and> s ! 4 = CHR ''-'' \<and> s ! 7 = CHR ''-'')"

definition isDateString :: "string \<Rightarrow> bool" where
  "isDateString s = (date_prefix s \<and> length s = 10)"

definition isDateTimeString :: "string \<Rightarrow> bool" where
  "isDateTimeString s = (date_prefix s \<and> length s > 10 \<and> s ! 10 \<noteq> CHR 0x0A)"

definition DateFormat :: string where "DateFormat = ''2006-01-02''"
definition DateTimeFormat :: string where "DateTimeFormat = ''2006-01-02 15:04:05.999999''"
definition RFC3339Nano :: string where "RFC3339Nano = ''2006-01-02T15:04:05.999999999Z07:00''"

definition expected_unary :: "string list" where
  "expected_unary = [''identifier'', ''string'', ''number'', ''bool'']"

function ParseExpr :: "('f, 't, 'r) golib \<Rightarrow> Parser \<Rightarrow> ('f, 't, 'r) Expr result"
  and ParseExpr_loop :: "('f, 't, 'r) golib \<Rightarrow> ('f, 't, 'r) Expr \<Rightarrow> Parser \<Rightarrow> ('f, 't, 'r) Expr result"
  and parseUnaryExpr :: "('f, 't, 'r) golib \<Rightarrow> Parser \<Rightarrow> ('f, 't, 'r) Expr result"
  and parseCall :: "('f, 't, 'r) golib \<Rightarrow> string \<Rightarrow> Parser \<Rightarrow> ('f, 't, 'r) Expr result"
  and parseCall_args :: "('f, 't, 'r) golib \<Rightarrow> string \<Rightarrow> ('f, 't, 'r) Expr list \<Rightarrow> Parser \<Rightarrow> ('f, 't, 'r) Expr result"
where
  "ParseExpr L p =
     (case parseUnaryExpr L p of
        Inl err \<Rightarrow> Inl err
      | Inr (expr, p1) \<Rightarrow> ParseExpr_loop L expr p1)"
| "ParseExpr_loop L expr p =
     (case scanIgnoreWhitespace p of ((op, pos, lit), p1) \<Rightarrow>
        if \<not> isOperator op then Inr (expr, unscan p1)
        else
          case parseUnaryExpr L p1 of
            Inl err \<Rightarrow> Inl err
          | Inr (rhs, p2) \<Rightarrow>
              ParseExpr_loop L
                (case expr of
                   BinaryExpr lhs_LHS lhs_Op lhs_RHS \<Rightarrow>
                     if Precedence lhs_Op < Precedence op
                     then BinaryExpr lhs_LHS lhs_Op (BinaryExpr lhs_RHS op rhs)
                     else BinaryExpr expr op rhs
                 | _ \<Rightarrow> BinaryExpr expr op rhs)
                p2)"
| "parseUnaryExpr L p =
     (case scanIgnoreWhitespace p of ((tok0, pos0, lit0), p1) \<Rightarrow>
        if tok0 = LPAREN then
          (case ParseExpr L p1 of
             Inl err \<Rightarrow> Inl err
           | Inr (expr, p2) \<Rightarrow>
               (case scanIgnoreWhitespace p2 of ((tok, pos, lit), p3) \<Rightarrow>
                  if tok \<noteq> RPAREN then Inl (newParseError (tokstr tok lit) ['')''] pos)
                  else Inr (ParenExpr expr, p3)))
        else
          (case scanIgnoreWhitespace (unscan p1) of ((tok, pos, lit), p2) \<Rightarrow>
             if tok = IDENT then
               (case scan p2 of ((tok0, pos0, lit0), p3) \<Rightarrow>
                  if tok0 = LPAREN then parseCall L lit p3
                  else Inr (VarRef lit, unscan p3))
             else if tok = STRING then
               (if isDateTimeString lit then
                  (case time_Parse L DateTimeFormat lit of
                     None \<Rightarrow>
                       (case time_Parse L RFC3339Nano lit of
                          None \<Rightarrow> Inl (messageError ''unable to parse datetime'' pos)
                        | Some t \<Rightarrow> Inr (TimeLiteral t, p2))
                   | Some t \<Rightarrow> Inr (TimeLiteral t, p2))
                else if isDateString lit then
                  (case time_Parse L DateFormat lit of
                     None \<Rightarrow> Inl (messageError ''unable to parse date'' pos)
                   | Some t \<Rightarrow> Inr (TimeLiteral t, p2))
                else Inr (StringLiteral lit, p2))
             else if tok = NUMBER then
               (case ParseFloat L lit of
                  None \<Rightarrow> Inl (messageError ''unable to parse number'' pos)
                | Some v \<Rightarrow> Inr (NumberLiteral v, p2))
             else if tok = TRUE \<or> tok = FALSE then Inr (BooleanLiteral (tok = TRUE), p2)
             else if tok = DURATION_VAL then
               Inr (DurationLiteral (case ParseDuration lit of Inl err \<Rightarrow> 0 | Inr v \<Rightarrow> v), p2)
             else if tok = MUL then Inr (Wildcard, p2)
             else if tok = REGEX then
               (case regexp_Compile L lit of
                  Inl msg \<Rightarrow> Inl (messageError msg pos)
                | Inr re \<Rightarrow> Inr (RegexLiteral re, p2))
             else Inl (newParseError (tokstr tok lit) expected_unary pos)))"
| "parseCall L name p =
     (case scan p of ((tok, pos, lit), p1) \<Rightarrow>
        if tok = RPAREN then Inr (Call name [], p1)
        else parseCall_args L name [] (unscan p1))"
| "parseCall_args L name args p =
     (case ParseExpr L p of
        Inl err \<Rightarrow> Inl err
      | Inr (arg, p1) \<Rightarrow>
          (case scan p1 of ((tok, pos, lit), p2) \<Rightarrow>
             if tok = COMMA then parseCall_args L name (args @ [arg]) p2
             else
               (case scan (unscan p2) of ((tok, pos, lit), p3) \<Rightarrow>
                  if tok \<noteq> RPAREN then Inl (newParseError (tokstr tok lit) ['')''] pos)
                  else Inr (Call name (args @ [arg]), p3))))"
  by pat_completeness auto

text \<open>Reading never adds tokens: the measure by which the parser terminates.\<close>

lemma scan_remaining:
  assumes "scan p = ((tok, pos, lit), p1)"
  shows "remaining p1 \<le> remaining p" "remaining (unscan p1) \<le> remaining p"
    "tok \<noteq> EOF \<Longrightarrow> remaining p1 < remaining p"
  using assms
  by (auto simp: scan_def remaining_def unscan_def split: if_splits list.splits)

lemma scanIgnoreWhitespace_remaining:
  assumes "scanIgnoreWhitespace p = ((tok, pos, lit), p1)"
  shows "remaining p1 \<le> remaining p" "remaining (unscan p1) \<le> remaining p"
    "tok \<noteq> EOF \<Longrightarrow> remaining p1 < remaining p"
proof -
  obtain t0 q0 l0 p0 where s0: "scan p = ((t0, q0, l0), p0)"
    by (metis prod_cases3 surj_pair)
  show "remaining p1 \<le> remaining p" "remaining (unscan p1) \<le> remaining p"
    "tok \<noteq> EOF \<Longrightarrow> remaining p1 < remaining p"
    using assms s0 scan_remaining [OF s0] scan_remaining [of p0 tok pos lit p1]
    by (auto simp: scanIgnoreWhitespace_def split: if_splits)
qed

lemma isOperator_not_EOF: "isOperator tok \<Longrightarrow> tok \<noteq> EOF"
  by (auto simp: isOperator_def)

abbreviation (input) "PE_dom \<equiv> ParseExpr_ParseExpr_loop_parseUnaryExpr_parseCall_parseCall_args_dom"

lemma ParseExpr_family_remaining:
  "PE_dom (Inl (Inl (L, p))) \<Longrightarrow> ParseExpr L p = Inr (e, p') \<Longrightarrow> remaining p' \<le> remaining p"
  "PE_dom (Inl (Inr (L, expr, p))) \<Longrightarrow> ParseExpr_loop L expr p = Inr (e, p') \<Longrightarrow> remaining p' \<le> remaining p"
  "PE_dom (Inr (Inl (L, p))) \<Longrightarrow> parseUnaryExpr L p = Inr (e, p') \<Longrightarrow> remaining p' \<le> remaining p"
  "PE_dom (Inr (Inr (Inl (L, name, p)))) \<Longrightarrow> parseCall L name p = Inr (e, p') \<Longrightarrow> remaining p' \<le> remaining p"
  "PE_dom (Inr (Inr (Inr (L, name, args, p)))) \<Longrightarrow> parseCall_args L name args p = Inr (e, p') \<Longrightarrow> remaining p' \<le> remaining p"
proof (induction arbitrary: e p' and e p' and e p' and e p' and e p'
    rule: ParseExpr_ParseExpr_loop_parseUnaryExpr_parseCall_parseCall_args.pinduct)
  case (1 L p)
  from "1.prems" "1.hyps" obtain x p1 where
    u: "parseUnaryExpr L p = Inr (x, p1)" and l: "ParseExpr_loop L x p1 = Inr (e, p')"
    by (auto simp: ParseExpr.psimps split: sum.splits)
  from "1.IH"(1) [OF u] "1.IH"(2) [OF u refl l] show ?case by simp
next
  case (2 L expr p)
  obtain op pos lit p1 where s: "scanIgnoreWhitespace p = ((op, pos, lit), p1)"
    by (metis prod_cases3 surj_pair)
  note r = scanIgnoreWhitespace_remaining [OF s]
  show ?case
  proof (cases "isOperator op")
    case False
    with "2.prems" "2.hyps" s r show ?thesis
      by (auto simp: ParseExpr_loop.psimps)
  next
    case True
    with "2.prems" "2.hyps" s obtain rhs p2 where
      u: "parseUnaryExpr L p1 = Inr (rhs, p2)" and
      l: "ParseExpr_loop L
                (case expr of
                   BinaryExpr lhs_LHS lhs_Op lhs_RHS \<Rightarrow>
                     if Precedence lhs_Op < Precedence op
                     then BinaryExpr lhs_LHS lhs_Op (BinaryExpr lhs_RHS op rhs)
                     else BinaryExpr expr op rhs
                 | _ \<Rightarrow> BinaryExpr expr op rhs) p2 = Inr (e, p')"
      by (auto simp: ParseExpr_loop.psimps split: sum.splits)
    have "remaining p2 \<le> remaining p1"
      using "2.IH"(1) [OF s [symmetric] refl refl _ u] True by simp
    moreover have "remaining p' \<le> remaining p2"
      using "2.IH"(2) [OF s [symmetric] refl refl _ u refl l] True by simp
    ultimately show ?thesis using r(1) by simp
  qed
next
  case (3 L p)
  obtain tok0 pos0 lit0 p1 where s0: "scanIgnoreWhitespace p = ((tok0, pos0, lit0), p1)"
    by (metis prod_cases3 surj_pair)
  note r0 = scanIgnoreWhitespace_remaining [OF s0]
  show ?case
  proof (cases "tok0 = LPAREN")
    case True
    with "3.prems" "3.hyps" s0 obtain x p2 tok pos lit where
      e: "ParseExpr L p1 = Inr (x, p2)" and s2: "scanIgnoreWhitespace p2 = ((tok, pos, lit), p')"
      by (auto simp: parseUnaryExpr.psimps split: sum.splits prod.splits if_splits)
    have "remaining p2 \<le> remaining p1"
      using "3.IH"(1) [OF s0 [symmetric] refl refl True e] .
    with r0(1) scanIgnoreWhitespace_remaining(1) [OF s2] show ?thesis by simp
  next
    case False
    obtain tok pos lit p2 where s1: "scanIgnoreWhitespace (unscan p1) = ((tok, pos, lit), p2)"
      by (metis prod_cases3 surj_pair)
    note r1 = scanIgnoreWhitespace_remaining [OF s1]
    have p2: "remaining p2 \<le> remaining p" using r0(2) r1(1) by simp
    show ?thesis
    proof (cases "tok = IDENT")
      case ident: True
      obtain t3 q3 l3 p3 where s3: "scan p2 = ((t3, q3, l3), p3)"
        by (metis prod_cases3 surj_pair)
      note r3 = scan_remaining [OF s3]
      show ?thesis
      proof (cases "t3 = LPAREN")
        case True
        with "3.prems" "3.hyps" s0 s1 s3 False ident have c: "parseCall L lit p3 = Inr (e, p')"
          by (auto simp: parseUnaryExpr.psimps)
        have "remaining p' \<le> remaining p3"
          using "3.IH"(2) [OF s0 [symmetric] refl refl False s1 [symmetric] refl refl ident
              s3 [symmetric] refl refl True c] .
        with r3(1) p2 show ?thesis by simp
      next
        case nl: False
        with "3.prems" "3.hyps" s0 s1 s3 False ident have "p' = unscan p3"
          by (auto simp: parseUnaryExpr.psimps)
        with r3(2) p2 show ?thesis by simp
      qed
    next
      case False
      with "3.prems" "3.hyps" s0 s1 \<open>tok0 \<noteq> LPAREN\<close> have "p' = p2"
        by (auto simp: parseUnaryExpr.psimps split: if_splits option.splits sum.splits)
      with p2 show ?thesis by simp
    qed
  qed
next
  case (4 L name p)
  obtain tok pos lit p1 where s: "scan p = ((tok, pos, lit), p1)"
    by (metis prod_cases3 surj_pair)
  note r = scan_remaining [OF s]
  show ?case
  proof (cases "tok = RPAREN")
    case True
    with "4.prems" "4.hyps" s r show ?thesis by (auto simp: parseCall.psimps)
  next
    case False
    with "4.prems" "4.hyps" s have a: "parseCall_args L name [] (unscan p1) = Inr (e, p')"
      by (auto simp: parseCall.psimps)
    from "4.IH" [OF s [symmetric] refl refl False a] r(2) show ?thesis by simp
  qed
next
  case (5 L name args p)
  from "5.prems" "5.hyps" obtain arg p1 where e: "ParseExpr L p = Inr (arg, p1)"
    by (auto simp: parseCall_args.psimps split: sum.splits)
  have r1: "remaining p1 \<le> remaining p" using "5.IH"(1) [OF e] .
  obtain tok pos lit p2 where s: "scan p1 = ((tok, pos, lit), p2)"
    by (metis prod_cases3 surj_pair)
  note r = scan_remaining [OF s]
  show ?case
  proof (cases "tok = COMMA")
    case True
    with "5.prems" "5.hyps" e s have a: "parseCall_args L name (args @ [arg]) p2 = Inr (e, p')"
      by (auto simp: parseCall_args.psimps)
    from "5.IH"(2) [OF e refl s [symmetric] refl refl True a] r(1) r1 show ?thesis by simp
  next
    case False
    with "5.prems" "5.hyps" e s obtain t q l where "scan (unscan p2) = ((t, q, l), p')"
      by (auto simp: parseCall_args.psimps split: prod.splits if_splits)
    from scan_remaining(1) [OF this] r(2) r1 show ?thesis by simp
  qed
qed

lemma ParseExpr_family_total: "All PE_dom"
proof (relation "measure (\<lambda>x. case x of
      Inl (Inl (L, p)) \<Rightarrow> 5 * remaining p + 2
    | Inl (Inr (L, expr, p)) \<Rightarrow> 5 * remaining p + 1
    | Inr (Inl (L, p)) \<Rightarrow> 5 * remaining p + 1
    | Inr (Inr (Inl (L, name, p))) \<Rightarrow> 5 * remaining p + 4
    | Inr (Inr (Inr (L, name, args, p))) \<Rightarrow> 5 * remaining p + 3)", goal_cases)
  case 1
  show ?case by auto
next
  case (2 L p)
  show ?case by auto
next
  case (3 L p b x y)
  then show ?case using ParseExpr_family_remaining(3) [of L p x y] by auto
next
  case (4 L expr p x y xa ya xb yb)
  then show ?case
    using scanIgnoreWhitespace_remaining(3) [of p xa xb yb y] isOperator_not_EOF [of xa] by auto
next
  case (5 L expr p x y xa ya xb yb b xc yc)
  then show ?case
    using scanIgnoreWhitespace_remaining(3) [of p xa xb yb y] isOperator_not_EOF [of xa]
      ParseExpr_family_remaining(3) [of L y xc yc] by auto
next
  case (6 L p x y xa ya xb yb)
  then show ?case
    using scanIgnoreWhitespace_remaining(3) [of p xa xb yb y] by auto
next
  case (7 L p x y xa ya xb yb xc yaa xd yc xe yd xf ye xg yf xh yg)
  then show ?case
    using scanIgnoreWhitespace_remaining(2) [of p xa xb yb y]
      scanIgnoreWhitespace_remaining(1) [of "unscan y" xd xe yd yaa]
      scan_remaining(3) [of yaa xg xh yg ye] by auto
next
  case (8 L name p x y xa ya xb yb)
  then show ?case using scan_remaining(2) [of p xa xb yb y] by auto
next
  case (9 L name args p)
  show ?case by auto
next
  case (10 L name args p b x y xa ya xb yb xaa yc)
  then show ?case
    using ParseExpr_family_remaining(1) [of L p x y] scan_remaining(3) [of y xb xaa yc ya] by auto
qed

termination ParseExpr
  by (rule ParseExpr_family_total)

declare ParseExpr.simps [simp del] ParseExpr_loop.simps [simp del] parseUnaryExpr.simps [simp del]
  parseCall.simps [simp del] parseCall_args.simps [simp del]

lemmas ParseExpr_remaining =
  ParseExpr_family_remaining [OF ParseExpr_family_total [THEN spec]]

section \<open>The parser: numbers, names, lists\<close>

fun parseTokens :: "Parser \<Rightarrow> Token list \<Rightarrow> unit result" where
  "parseTokens p [] = Inr ((), p)"
| "parseTokens p (expected # toks) =
     (case scanIgnoreWhitespace p of ((tok, pos, lit), p) \<Rightarrow>
      if tok \<noteq> expected then Inl (newParseError (tokstr tok lit) [Token_String expected] pos)
      else parseTokens p toks)"

definition MaxInt32 :: int where
  "MaxInt32 = 2 ^ 31 - 1"

definition parseInt :: "Parser \<Rightarrow> int \<Rightarrow> int \<Rightarrow> int result" where
  "parseInt p min' max' =
     (case scanIgnoreWhitespace p of ((tok, pos, lit), p) \<Rightarrow>
      if tok \<noteq> NUMBER then Inl (newParseError (tokstr tok lit) [''number''] pos)
      else if contains_dot lit then Inl (messageError ''number must be an integer'' pos)
      else
        case Atoi lit of
          (n, Some err) \<Rightarrow> Inl (messageError (NumError_Error ''Atoi'' lit err) pos)
        | (n, None) \<Rightarrow>
            if min' > n \<or> n > max' then
              Inl (messageError
                    (''invalid value '' @ itoa n @ '': must be '' @ itoa min' @ '' <= n <= ''
                       @ itoa max') pos)
            else Inr (n, p))"

definition parseUInt32 :: "Parser \<Rightarrow> int result" where
  "parseUInt32 p =
     (case scanIgnoreWhitespace p of ((tok, pos, lit), p) \<Rightarrow>
      if tok \<noteq> NUMBER then Inl (newParseError (tokstr tok lit) [''number''] pos)
      else
        case ParseUint lit 32 of
          (n, Some err) \<Rightarrow> Inl (messageError (NumError_Error ''ParseUint'' lit err) pos)
        | (n, None) \<Rightarrow> Inr (n, p))"

definition parseDuration :: "Parser \<Rightarrow> Duration result" where
  "parseDuration p =
     (case scanIgnoreWhitespace p of ((tok, pos, lit), p) \<Rightarrow>
      if tok \<noteq> DURATION_VAL then Inl (newParseError (tokstr tok lit) [''duration''] pos)
      else
        case ParseDuration lit of
          Inl err \<Rightarrow> Inl (messageError err pos)
        | Inr d \<Rightarrow> Inr (d, p))"

definition parseIdent :: "Parser \<Rightarrow> string result" where
  "parseIdent p =
     (case scanIgnoreWhitespace p of ((tok, pos, lit), p) \<Rightarrow>
      if tok \<noteq> IDENT then Inl (newParseError (tokstr tok lit) [''identifier''] pos)
      else Inr (lit, p))"

definition parseString :: "Parser \<Rightarrow> string result" where
  "parseString p =
     (case scanIgnoreWhitespace p of ((tok, pos, lit), p) \<Rightarrow>
      if tok \<noteq> STRING then Inl (newParseError (tokstr tok lit) [''string''] pos)
      else Inr (lit, p))"

definition parsePrivilege :: "Parser \<Rightarrow> Privilege result" where
  "parsePrivilege p =
     (case scanIgnoreWhitespace p of ((tok, pos, lit), p) \<Rightarrow>
      if tok = READ then Inr (ReadPrivilege, p)
      else if tok = WRITE then Inr (WritePrivilege, p)
      else if tok = ALL' then
        (case scanIgnoreWhitespace p of ((tok, pos, lit), p) \<Rightarrow>
         if tok \<noteq> PRIVILEGES then Inr (AllPrivileges, unscan p) else Inr (AllPrivileges, p))
      else Inl (newParseError (tokstr tok lit) [''READ'', ''WRITE'', ''ALL [PRIVILEGES]''] pos))"

definition parseOptionalTokenAndInt :: "Parser \<Rightarrow> Token \<Rightarrow> int result" where
  "parseOptionalTokenAndInt p t =
     (case scanIgnoreWhitespace p of ((tok, pos, lit), p) \<Rightarrow>
      if tok \<noteq> t then Inr (0, unscan p)
      else
        case scanIgnoreWhitespace p of ((tok, pos, lit), p) \<Rightarrow>
        if tok \<noteq> NUMBER then Inl (newParseError (tokstr tok lit) [''number''] pos)
        else if contains_dot lit then
          Inl (messageError (''fractional parts not allowed in '' @ Token_String t) pos)
        else
          case ParseInt lit 64 of (n, err) \<Rightarrow>
          if n < 1 then Inl (messageError (Token_String t @ '' must be > 0'') pos)
          else Inr (n, p))"

definition parseAlias :: "Parser \<Rightarrow> string result" where
  "parseAlias p =
     (case scanIgnoreWhitespace p of ((tok, pos, lit), p) \<Rightarrow>
      if tok \<noteq> AS then Inr ([], unscan p)
      else parseIdent p)"

definition parseSortField :: "Parser \<Rightarrow> SortField result" where
  "parseSortField p =
     (case scanIgnoreWhitespace p of ((tok, pos, lit), p) \<Rightarrow>
      if tok = IDENT \<or> tok = STRING then
        (case scanIgnoreWhitespace p of ((tok, pos, lit'), p) \<Rightarrow>
         if tok \<noteq> ASC \<and> tok \<noteq> DESC
         then Inr (\<lparr>SortField.Name = lit, Ascending = False\<rparr>, unscan p)
         else Inr (\<lparr>SortField.Name = lit, Ascending = (tok = ASC)\<rparr>, p))
      else if tok \<noteq> ASC \<and> tok \<noteq> DESC then
        Inl (newParseError (tokstr tok lit) [''identifier, ASC, or DESC''] pos)
      else Inr (\<lparr>SortField.Name = [], Ascending = (tok = ASC)\<rparr>, p))"

definition parseField :: "('f, 't, 'r) golib \<Rightarrow> Parser \<Rightarrow> ('f, 't, 'r) Field result" where
  "parseField L p =
     (case ParseExpr L p of Inl err \<Rightarrow> Inl err | Inr (expr, p) \<Rightarrow>
      case parseAlias p of Inl err \<Rightarrow> Inl err | Inr (alias, p) \<Rightarrow>
      Inr (\<lparr>Field.Expr = expr, Alias = alias\<rparr>, consumeWhitespace p))"

definition parseDimension :: "('f, 't, 'r) golib \<Rightarrow> Parser \<Rightarrow> ('f, 't, 'r) Dimension result" where
  "parseDimension L p =
     (case ParseExpr L p of Inl err \<Rightarrow> Inl err | Inr (expr, p) \<Rightarrow>
      Inr (\<lparr>Dimension.Expr = expr\<rparr>, consumeWhitespace p))"

definition parseCondition :: "('f, 't, 'r) golib \<Rightarrow> Parser \<Rightarrow> ('f, 't, 'r) Expr option result" where
  "parseCondition L p =
     (case scanIgnoreWhitespace p of ((tok, pos, lit), p) \<Rightarrow>
      if tok \<noteq> WHERE then Inr (None, unscan p)
      else
        case ParseExpr L p of Inl err \<Rightarrow> Inl err | Inr (expr, p) \<Rightarrow> Inr (Some expr, p))"

datatype targetRequirement = targetRequired | targetNotRequired

definition parseTarget :: "Parser \<Rightarrow> targetRequirement \<Rightarrow> Target option result" where
  "parseTarget p tr =
     (case scanIgnoreWhitespace p of ((tok, pos, lit), p) \<Rightarrow>
      if tok \<noteq> INTO then
        (if tr = targetRequired then Inl (newParseError (tokstr tok lit) [''INTO''] pos)
         else Inr (None, unscan p))
      else
        case parseIdent p of Inl err \<Rightarrow> Inl err | Inr (ident, p) \<Rightarrow>
        case scanIgnoreWhitespace p of ((tok, pos, lit), p) \<Rightarrow>
        if tok \<noteq> ON then Inr (Some \<lparr>Target.Measurement = ident, Database = []\<rparr>, unscan p)
        else
          case parseIdent p of Inl err \<Rightarrow> Inl err | Inr (ident', p) \<Rightarrow>
          Inr (Some \<lparr>Target.Measurement = ident, Database = ident'\<rparr>, p))"

lemma scan_D:
  "scan p = ((tok, pos, lit), p1) \<Longrightarrow>
     remaining p1 \<le> remaining p \<and> remaining (unscan p1) \<le> remaining p
       \<and> (tok \<noteq> EOF \<longrightarrow> remaining p1 < remaining p)"
  using scan_remaining [of p tok pos lit p1] by simp

lemma scanIgnoreWhitespace_D:
  "scanIgnoreWhitespace p = ((tok, pos, lit), p1) \<Longrightarrow>
     remaining p1 \<le> remaining p \<and> remaining (unscan p1) \<le> remaining p
       \<and> (tok \<noteq> EOF \<longrightarrow> remaining p1 < remaining p)"
  using scanIgnoreWhitespace_remaining [of p tok pos lit p1] by simp

lemma consumeWhitespace_remaining: "remaining (consumeWhitespace p) \<le> remaining p"
  by (auto simp: consumeWhitespace_def split: prod.splits dest!: scan_D)

lemma parseTokens_remaining: "parseTokens p toks = Inr (u, p') \<Longrightarrow> remaining p' \<le> remaining p"
proof (induction toks arbitrary: p)
  case Nil
  then show ?case by simp
next
  case (Cons t toks)
  then show ?case
    by (fastforce split: prod.splits if_splits dest!: scanIgnoreWhitespace_D)
qed

lemma parseInt_remaining: "parseInt p lo hi = Inr (n, p') \<Longrightarrow> remaining p' \<le> remaining p"
  by (auto simp: parseInt_def split: prod.splits if_splits option.splits dest!: scanIgnoreWhitespace_D)

lemma parseUInt32_remaining: "parseUInt32 p = Inr (n, p') \<Longrightarrow> remaining p' \<le> remaining p"
  by (auto simp: parseUInt32_def split: prod.splits if_splits option.splits dest!: scanIgnoreWhitespace_D)

lemma parseDuration_remaining: "parseDuration p = Inr (d, p') \<Longrightarrow> remaining p' \<le> remaining p"
  by (auto simp: parseDuration_def split: prod.splits if_splits sum.splits dest!: scanIgnoreWhitespace_D)

lemma parseIdent_remaining: "parseIdent p = Inr (s, p') \<Longrightarrow> remaining p' \<le> remaining p"
  by (auto simp: parseIdent_def split: prod.splits if_splits dest!: scanIgnoreWhitespace_D)

lemma parseString_remaining: "parseString p = Inr (s, p') \<Longrightarrow> remaining p' \<le> remaining p"
  by (auto simp: parseString_def split: prod.splits if_splits dest!: scanIgnoreWhitespace_D)

lemma parsePrivilege_remaining: "parsePrivilege p = Inr (x, p') \<Longrightarrow> remaining p' \<le> remaining p"
  by (auto simp: parsePrivilege_def split: prod.splits if_splits dest!: scanIgnoreWhitespace_D)

lemma parseOptionalTokenAndInt_remaining:
  "parseOptionalTokenAndInt p t = Inr (n, p') \<Longrightarrow> remaining p' \<le> remaining p"
  by (auto simp: parseOptionalTokenAndInt_def split: prod.splits if_splits dest!: scanIgnoreWhitespace_D)

lemma parseAlias_remaining: "parseAlias p = Inr (s, p') \<Longrightarrow> remaining p' \<le> remaining p"
  by (auto simp: parseAlias_def split: prod.splits if_splits
      dest!: scanIgnoreWhitespace_D parseIdent_remaining)

lemma parseSortField_remaining: "parseSortField p = Inr (x, p') \<Longrightarrow> remaining p' \<le> remaining p"
  by (auto simp: parseSortField_def split: prod.splits if_splits dest!: scanIgnoreWhitespace_D)

lemma parseField_remaining: "parseField L p = Inr (x, p') \<Longrightarrow> remaining p' \<le> remaining p"
  using consumeWhitespace_remaining
  by (fastforce simp: parseField_def split: prod.splits sum.splits
      dest!: ParseExpr_remaining(1) parseAlias_remaining intro: order_trans)

lemma parseDimension_remaining: "parseDimension L p = Inr (x, p') \<Longrightarrow> remaining p' \<le> remaining p"
  using consumeWhitespace_remaining
  by (fastforce simp: parseDimension_def split: prod.splits sum.splits
      dest!: ParseExpr_remaining(1) intro: order_trans)

lemma parseCondition_remaining: "parseCondition L p = Inr (x, p') \<Longrightarrow> remaining p' \<le> remaining p"
  by (auto simp: parseCondition_def split: prod.splits if_splits sum.splits
      dest!: scanIgnoreWhitespace_D ParseExpr_remaining(1))

lemma parseTarget_remaining: "parseTarget p tr = Inr (x, p') \<Longrightarrow> remaining p' \<le> remaining p"
  by (auto simp: parseTarget_def split: prod.splits if_splits sum.splits
      dest!: scanIgnoreWhitespace_D parseIdent_remaining)

section \<open>The parser: clauses\<close>

function parseIdentList_loop :: "string list \<Rightarrow> Parser \<Rightarrow> string list result" where
  "parseIdentList_loop idents p =
     (case scanIgnoreWhitespace p of ((tok, pos, lit), p1) \<Rightarrow>
      if tok \<noteq> COMMA then Inr (idents, unscan p1)
      else
        case parseIdent p1 of Inl err \<Rightarrow> Inl err | Inr (ident, p2) \<Rightarrow>
        parseIdentList_loop (idents @ [ident]) p2)"
  by pat_completeness auto
termination
  by (relation "measure (\<lambda>(idents, p). remaining p)")
     (auto dest!: scanIgnoreWhitespace_D [OF sym] parseIdent_remaining)

declare parseIdentList_loop.simps [simp del]

definition parseIdentList :: "Parser \<Rightarrow> string list result" where
  "parseIdentList p =
     (case parseIdent p of Inl err \<Rightarrow> Inl err | Inr (ident, p) \<Rightarrow>
      parseIdentList_loop [ident] p)"

function parseFields_loop ::
  "('f, 't, 'r) golib \<Rightarrow> ('f, 't, 'r) Field list \<Rightarrow> Parser \<Rightarrow> ('f, 't, 'r) Field list result"
where
  "parseFields_loop L fields' p =
     (case parseField L p of Inl err \<Rightarrow> Inl err | Inr (f, p1) \<Rightarrow>
      case scan p1 of ((tok, pos, lit), p2) \<Rightarrow>
      if tok \<noteq> COMMA then Inr (fields' @ [f], unscan p2)
      else parseFields_loop L (fields' @ [f]) p2)"
  by pat_completeness auto
termination
  by (relation "measure (\<lambda>(L, fields', p). remaining p)")
     (auto dest!: scan_D [OF sym] parseField_remaining)

declare parseFields_loop.simps [simp del]

definition parseFields :: "('f, 't, 'r) golib \<Rightarrow> Parser \<Rightarrow> ('f, 't, 'r) Field list result" where
  "parseFields L p =
     (case scanIgnoreWhitespace p of ((tok, pos, lit), p) \<Rightarrow>
      if tok = MUL then Inr ([\<lparr>Field.Expr = Wildcard, Alias = []\<rparr>], p)
      else parseFields_loop L [] (unscan p))"

text \<open>\<open>strings.ToLower\<close> on the ASCII letters; the other bytes are kept.\<close>

definition ToLower :: "string \<Rightarrow> string" where
  "ToLower s = map (\<lambda>c. if in_range 65 90 c then char_of (byte c + 32) else c) s"

function parseSource_measurements :: "Measurement list \<Rightarrow> Parser \<Rightarrow> Measurement list result" where
  "parseSource_measurements measurements p =
     (case scanIgnoreWhitespace p of ((tok, pos, lit), p1) \<Rightarrow>
      if tok \<noteq> IDENT then Inl (newParseError (tokstr tok lit) [''measurement name''] pos)
      else
        case scan p1 of ((tok', pos', lit'), p2) \<Rightarrow>
        if tok' \<noteq> COMMA then Inr (measurements @ [\<lparr>Measurement.Name = lit\<rparr>], unscan p2)
        else parseSource_measurements (measurements @ [\<lparr>Measurement.Name = lit\<rparr>]) p2)"
  by pat_completeness auto
termination
  by (relation "measure (\<lambda>(measurements, p). remaining p)")
     (auto dest!: scan_D [OF sym] scanIgnoreWhitespace_D [OF sym])

declare parseSource_measurements.simps [simp del]

definition parseSource :: "Parser \<Rightarrow> Source result" where
  "parseSource p =
     (case scanIgnoreWhitespace p of ((tok, pos, lit), p) \<Rightarrow>
      if tok \<noteq> IDENT then Inl (newParseError (tokstr tok lit) [''identifier''] pos)
      else
        case scan p of ((next, pos', lit'), p) \<Rightarrow>
        if tok = STRING \<or> (tok = IDENT \<and> next \<noteq> LPAREN)
        then Inr (Measurement' \<lparr>Measurement.Name = lit\<rparr>, unscan p)
        else
          let sourceType = ToLower lit in
          if sourceType \<noteq> ''join'' \<and> sourceType \<noteq> ''merge''
          then Inl (messageError (''unknown merge type: '' @ sourceType) pos)
          else
            case parseSource_measurements [] p of Inl err \<Rightarrow> Inl err
            | Inr (measurements, p) \<Rightarrow>
            case scanIgnoreWhitespace p of ((tok, pos, lit), p) \<Rightarrow>
            if tok \<noteq> RPAREN then Inl (newParseError (tokstr tok lit) ['')''] pos)
            else if sourceType = ''join'' then Inr (Join measurements, p)
            else Inr (Merge measurements, p))"

function parseDimensions_loop ::
  "('f, 't, 'r) golib \<Rightarrow> ('f, 't, 'r) Dimension list \<Rightarrow> Parser
     \<Rightarrow> ('f, 't, 'r) Dimension list result"
where
  "parseDimensions_loop L dimensions p =
     (case parseDimension L p of Inl err \<Rightarrow> Inl err | Inr (d, p1) \<Rightarrow>
      case scan p1 of ((tok, pos, lit), p2) \<Rightarrow>
      if tok \<noteq> COMMA then Inr (dimensions @ [d], unscan p2)
      else parseDimensions_loop L (dimensions @ [d]) p2)"
  by pat_completeness auto
termination
  by (relation "measure (\<lambda>(L, dimensions, p). remaining p)")
     (auto dest!: scan_D [OF sym] parseDimension_remaining)

declare parseDimensions_loop.simps [simp del]

definition parseDimensions ::
  "('f, 't, 'r) golib \<Rightarrow> Parser \<Rightarrow> ('f, 't, 'r) Dimension list result" where
  "parseDimensions L p =
     (case scanIgnoreWhitespace p of ((tok, pos, lit), p) \<Rightarrow>
      if tok \<noteq> GROUP then Inr ([], unscan p)
      else
        case scanIgnoreWhitespace p of ((tok, pos, lit), p) \<Rightarrow>
        if tok \<noteq> BY then Inl (newParseError (tokstr tok lit) [''BY''] pos)
        else parseDimensions_loop L [] p)"

function parseSortFields_loop :: "SortField list \<Rightarrow> Parser \<Rightarrow> SortField list result" where
  "parseSortFields_loop fields' p =
     (case scanIgnoreWhitespace p of ((tok, pos, lit), p1) \<Rightarrow>
      if tok \<noteq> COMMA then Inr (fields', unscan p1)
      else
        case parseSortField p1 of Inl err \<Rightarrow> Inl err | Inr (field, p2) \<Rightarrow>
        parseSortFields_loop (fields' @ [field]) p2)"
  by pat_completeness auto
termination
  by (relation "measure (\<lambda>(fields', p). remaining p)")
     (auto dest!: scanIgnoreWhitespace_D [OF sym] parseSortField_remaining)

declare parseSortFields_loop.simps [simp del]

definition parseSortFields :: "Parser \<Rightarrow> SortField list result" where
  "parseSortFields p =
     (case parseSortField p of Inl err \<Rightarrow> Inl err | Inr (field, p) \<Rightarrow>
      parseSortFields_loop [field] p)"

definition parseOrderBy :: "Parser \<Rightarrow> SortField list result" where
  "parseOrderBy p =
     (case scanIgnoreWhitespace p of ((tok, pos, lit), p) \<Rightarrow>
      if tok \<noteq> ORDER then Inr ([], unscan p)
      else
        case scanIgnoreWhitespace p of ((tok, pos, lit), p) \<Rightarrow>
        if tok \<noteq> BY then Inl (newParseError (tokstr tok lit) [''BY''] pos)
        else parseSortFields p)"

definition parseTagKeys :: "Parser \<Rightarrow> string list result" where
  "parseTagKeys p =
     (case parseTokens p [WITH, KEY] of Inl err \<Rightarrow> Inl err | Inr (u, p) \<Rightarrow>
      case scanIgnoreWhitespace p of ((tok, pos, lit), p) \<Rightarrow>
      if tok = IN then
        (case scanIgnoreWhitespace p of ((tok, pos, lit), p) \<Rightarrow>
         if tok \<noteq> LPAREN then Inl (newParseError (tokstr tok lit) [''(''] pos)
         else
           case parseIdentList p of Inl err \<Rightarrow> Inl err | Inr (tagKeys, p) \<Rightarrow>
           case scanIgnoreWhitespace p of ((tok, pos, lit), p) \<Rightarrow>
           if tok \<noteq> RPAREN then Inl (newParseError (tokstr tok lit) [''(''] pos)
           else Inr (tagKeys, p))
      else if tok = EQ then
        (case parseIdent p of Inl err \<Rightarrow> Inl err | Inr (ident, p) \<Rightarrow> Inr ([ident], p))
      else Inl (newParseError (tokstr tok lit) [''IN'', ''=''] pos))"

section \<open>The parser: statements\<close>

definition parseSelectStatement ::
  "('f, 't, 'r) golib \<Rightarrow> Parser \<Rightarrow> targetRequirement \<Rightarrow> ('f, 't, 'r) SelectStatement result"
where
  "parseSelectStatement L p tr =
     (case parseFields L p of Inl err \<Rightarrow> Inl err | Inr (fields', p) \<Rightarrow>
      case parseTarget p tr of Inl err \<Rightarrow> Inl err | Inr (target, p) \<Rightarrow>
      case scanIgnoreWhitespace p of ((tok, pos, lit), p) \<Rightarrow>
      if tok \<noteq> FROM then Inl (newParseError (tokstr tok lit) [''FROM''] pos) else
      case parseSource p of Inl err \<Rightarrow> Inl err | Inr (source, p) \<Rightarrow>
      case parseCondition L p of Inl err \<Rightarrow> Inl err | Inr (condition, p) \<Rightarrow>
      case parseDimensions L p of Inl err \<Rightarrow> Inl err | Inr (dimensions, p) \<Rightarrow>
      case parseOrderBy p of Inl err \<Rightarrow> Inl err | Inr (sortFields, p) \<Rightarrow>
      case parseOptionalTokenAndInt p LIMIT of Inl err \<Rightarrow> Inl err | Inr (limit, p) \<Rightarrow>
      case parseOptionalTokenAndInt p OFFSET of Inl err \<Rightarrow> Inl err | Inr (offset, p) \<Rightarrow>
      Inr (\<lparr>Fields = fields', Target = target, SelectStatement.Source = Some source,
            SelectStatement.Condition = condition, Dimensions = dimensions,
            SelectStatement.SortFields = sortFields, SelectStatement.Limit = limit,
            SelectStatement.Offset = offset\<rparr>, p))"

definition parseDeleteStatement ::
  "('f, 't, 'r) golib \<Rightarrow> Parser \<Rightarrow> ('f, 't, 'r) DeleteStatement result" where
  "parseDeleteStatement L p =
     (case scanIgnoreWhitespace p of ((tok, pos, lit), p) \<Rightarrow>
      if tok \<noteq> FROM then Inl (newParseError (tokstr tok lit) [''FROM''] pos) else
      case parseSource p of Inl err \<Rightarrow> Inl err | Inr (source, p) \<Rightarrow>
      case parseCondition L p of Inl err \<Rightarrow> Inl err | Inr (condition, p) \<Rightarrow>
      Inr (\<lparr>DeleteStatement.Source = Some source, DeleteStatement.Condition = condition\<rparr>, p))"

definition parseShowSeriesStatement ::
  "('f, 't, 'r) golib \<Rightarrow> Parser \<Rightarrow> ('f, 't, 'r) ShowSeriesStatement result" where
  "parseShowSeriesStatement L p =
     (case scanIgnoreWhitespace p of ((tok, pos, lit), p) \<Rightarrow>
      case
        (if tok = FROM then
           (case parseSource p of Inl err \<Rightarrow> Inl err | Inr (source, p) \<Rightarrow> Inr (Some source, p))
         else Inr (None, unscan p))
      of Inl err \<Rightarrow> Inl err | Inr (source, p) \<Rightarrow>
      case parseCondition L p of Inl err \<Rightarrow> Inl err | Inr (condition, p) \<Rightarrow>
      case parseOrderBy p of Inl err \<Rightarrow> Inl err | Inr (sortFields, p) \<Rightarrow>
      case parseOptionalTokenAndInt p LIMIT of Inl err \<Rightarrow> Inl err | Inr (limit, p) \<Rightarrow>
      case parseOptionalTokenAndInt p OFFSET of Inl err \<Rightarrow> Inl err | Inr (offset, p) \<Rightarrow>
      Inr (\<lparr>ShowSeriesStatement.Source = source, ShowSeriesStatement.Condition = condition,
            ShowSeriesStatement.SortFields = sortFields, ShowSeriesStatement.Limit = limit,
            ShowSeriesStatement.Offset = offset\<rparr>, p))"

definition parseShowMeasurementsStatement ::
  "('f, 't, 'r) golib \<Rightarrow> Parser \<Rightarrow> ('f, 't, 'r) ShowMeasurementsStatement result" where
  "parseShowMeasurementsStatement L p =
     (case parseCondition L p of Inl err \<Rightarrow> Inl err | Inr (condition, p) \<Rightarrow>
      case parseOrderBy p of Inl err \<Rightarrow> Inl err | Inr (sortFields, p) \<Rightarrow>
      case parseOptionalTokenAndInt p LIMIT of Inl err \<Rightarrow> Inl err | Inr (limit, p) \<Rightarrow>
      case parseOptionalTokenAndInt p OFFSET of Inl err \<Rightarrow> Inl err | Inr (offset, p) \<Rightarrow>
      Inr (\<lparr>ShowMeasurementsStatement.Source = None,
            ShowMeasurementsStatement.Condition = condition,
            ShowMeasurementsStatement.SortFields = sortFields,
            ShowMeasurementsStatement.Limit = limit,
            ShowMeasurementsStatement.Offset = offset\<rparr>, p))"

definition parseShowRetentionPoliciesStatement ::
  "Parser \<Rightarrow> ShowRetentionPoliciesStatement result" where
  "parseShowRetentionPoliciesStatement p =
     (case parseIdent p of Inl err \<Rightarrow> Inl err | Inr (ident, p) \<Rightarrow>
      Inr (\<lparr>ShowRetentionPoliciesStatement.Database = ident\<rparr>, p))"

definition parseShowTagKeysStatement ::
  "('f, 't, 'r) golib \<Rightarrow> Parser \<Rightarrow> ('f, 't, 'r) ShowTagKeysStatement result" where
  "parseShowTagKeysStatement L p =
     (case scanIgnoreWhitespace p of ((tok, pos, lit), p) \<Rightarrow>
      case
        (if tok = FROM then
           (case parseSource p of Inl err \<Rightarrow> Inl err | Inr (source, p) \<Rightarrow> Inr (Some source, p))
         else Inr (None, unscan p))
      of Inl err \<Rightarrow> Inl err | Inr (source, p) \<Rightarrow>
      case parseCondition L p of Inl err \<Rightarrow> Inl err | Inr (condition, p) \<Rightarrow>
      case parseOrderBy p of Inl err \<Rightarrow> Inl err | Inr (sortFields, p) \<Rightarrow>
      case parseOptionalTokenAndInt p LIMIT of Inl err \<Rightarrow> Inl err | Inr (limit, p) \<Rightarrow>
      case parseOptionalTokenAndInt p OFFSET of Inl err \<Rightarrow> Inl err | Inr (offset, p) \<Rightarrow>
      Inr (\<lparr>ShowTagKeysStatement.Source = source, ShowTagKeysStatement.Condition = condition,
            ShowTagKeysStatement.SortFields = sortFields, ShowTagKeysStatement.Limit = limit,
            ShowTagKeysStatement.Offset = offset\<rparr>, p))"

definition parseShowTagValuesStatement ::
  "('f, 't, 'r) golib \<Rightarrow> Parser \<Rightarrow> ('f, 't, 'r) ShowTagValuesStatement result" where
  "parseShowTagValuesStatement L p =
     (case scanIgnoreWhitespace p of ((tok, pos, lit), p) \<Rightarrow>
      case
        (if tok = FROM then
           (case parseSource p of Inl err \<Rightarrow> Inl err | Inr (source, p) \<Rightarrow> Inr (Some source, p))
         else Inr (None, unscan p))
      of Inl err \<Rightarrow> Inl err | Inr (source, p) \<Rightarrow>
      case parseTagKeys p of Inl err \<Rightarrow> Inl err | Inr (tagKeys, p) \<Rightarrow>
      case parseCondition L p of Inl err \<Rightarrow> Inl err | Inr (condition, p) \<Rightarrow>
      case parseOrderBy p of Inl err \<Rightarrow> Inl err | Inr (sortFields, p) \<Rightarrow>
      case parseOptionalTokenAndInt p LIMIT of Inl err \<Rightarrow> Inl err | Inr (limit, p) \<Rightarrow>
      case parseOptionalTokenAndInt p OFFSET of Inl err \<Rightarrow> Inl err | Inr (offset, p) \<Rightarrow>
      Inr (\<lparr>ShowTagValuesStatement.Source = source, TagKeys = tagKeys,
            ShowTagValuesStatement.Condition = condition,
            ShowTagValuesStatement.SortFields = sortFields, ShowTagValuesStatement.Limit = limit,
            ShowTagValuesStatement.Offset = offset\<rparr>, p))"

definition parseShowFieldKeysStatement ::
  "Parser \<Rightarrow> ('f, 't, 'r) ShowFieldKeysStatement result" where
  "parseShowFieldKeysStatement p =
     (case scanIgnoreWhitespace p of ((tok, pos, lit), p) \<Rightarrow>
      case
        (if tok = FROM then
           (case parseSource p of Inl err \<Rightarrow> Inl err | Inr (source, p) \<Rightarrow> Inr (Some source, p))
         else Inr (None, unscan p))
      of Inl err \<Rightarrow> Inl err | Inr (source, p) \<Rightarrow>
      case parseOrderBy p of Inl err \<Rightarrow> Inl err | Inr (sortFields, p) \<Rightarrow>
      case parseOptionalTokenAndInt p LIMIT of Inl err \<Rightarrow> Inl err | Inr (limit, p) \<Rightarrow>
      case parseOptionalTokenAndInt p OFFSET of Inl err \<Rightarrow> Inl err | Inr (offset, p) \<Rightarrow>
      Inr (\<lparr>ShowFieldKeysStatement.Source = source, ShowFieldKeysStatement.Condition = None,
            ShowFieldKeysStatement.SortFields = sortFields, ShowFieldKeysStatement.Limit = limit,
            ShowFieldKeysStatement.Offset = offset\<rparr>, p))"

definition parseShowContinuousQueriesStatement :: "Parser \<Rightarrow> unit result" where
  "parseShowContinuousQueriesStatement p =
     (case scanIgnoreWhitespace p of ((tok, pos, lit), p) \<Rightarrow>
      if tok \<noteq> QUERIES then Inl (newParseError (tokstr tok lit) [''QUERIES''] pos)
      else Inr ((), p))"

definition parseDropMeasurementStatement :: "Parser \<Rightarrow> DropMeasurementStatement result" where
  "parseDropMeasurementStatement p =
     (case parseIdent p of Inl err \<Rightarrow> Inl err | Inr (lit, p) \<Rightarrow>
      Inr (\<lparr>DropMeasurementStatement.Name = lit\<rparr>, p))"

definition parseDropSeriesStatement ::
  "('f, 't, 'r) golib \<Rightarrow> Parser \<Rightarrow> ('f, 't, 'r) DropSeriesStatement result" where
  "parseDropSeriesStatement L p =
     (case scanIgnoreWhitespace p of ((tok, pos, lit), p) \<Rightarrow>
      case
        (if tok = FROM then
           (case parseSource p of Inl err \<Rightarrow> Inl err | Inr (source, p) \<Rightarrow> Inr (Some source, p))
         else Inr (None, unscan p))
      of Inl err \<Rightarrow> Inl err | Inr (source, p) \<Rightarrow>
      case parseCondition L p of Inl err \<Rightarrow> Inl err | Inr (condition, p) \<Rightarrow>
      if condition = None \<and> source = None then
        (case parseUInt32 p of Inl err \<Rightarrow> Inl err | Inr (id', p) \<Rightarrow>
         Inr (\<lparr>DropSeriesStatement.Source = source, DropSeriesStatement.Condition = condition,
               SeriesID = id'\<rparr>, p))
      else
        Inr (\<lparr>DropSeriesStatement.Source = source, DropSeriesStatement.Condition = condition,
              SeriesID = 0\<rparr>, p))"

definition parseCreateDatabaseStatement :: "Parser \<Rightarrow> CreateDatabaseStatement result" where
  "parseCreateDatabaseStatement p =
     (case parseIdent p of Inl err \<Rightarrow> Inl err | Inr (lit, p) \<Rightarrow>
      Inr (\<lparr>CreateDatabaseStatement.Name = lit\<rparr>, p))"

definition parseDropDatabaseStatement :: "Parser \<Rightarrow> DropDatabaseStatement result" where
  "parseDropDatabaseStatement p =
     (case parseIdent p of Inl err \<Rightarrow> Inl err | Inr (lit, p) \<Rightarrow>
      Inr (\<lparr>DropDatabaseStatement.Name = lit\<rparr>, p))"

definition parseDropRetentionPolicyStatement :: "Parser \<Rightarrow> DropRetentionPolicyStatement result" where
  "parseDropRetentionPolicyStatement p =
     (case parseIdent p of Inl err \<Rightarrow> Inl err | Inr (ident, p) \<Rightarrow>
      case scanIgnoreWhitespace p of ((tok, pos, lit), p) \<Rightarrow>
      if tok \<noteq> ON then Inl (newParseError (tokstr tok lit) [''ON''] pos) else
      case parseIdent p of Inl err \<Rightarrow> Inl err | Inr (database, p) \<Rightarrow>
      Inr (\<lparr>DropRetentionPolicyStatement.Name = ident,
            DropRetentionPolicyStatement.Database = database\<rparr>, p))"

definition parseCreateUserStatement :: "Parser \<Rightarrow> CreateUserStatement result" where
  "parseCreateUserStatement p =
     (case parseIdent p of Inl err \<Rightarrow> Inl err | Inr (ident, p) \<Rightarrow>
      case parseTokens p [WITH, PASSWORD] of Inl err \<Rightarrow> Inl err | Inr (u, p) \<Rightarrow>
      case parseString p of Inl err \<Rightarrow> Inl err | Inr (password, p) \<Rightarrow>
      case scanIgnoreWhitespace p of ((tok, pos, lit), p) \<Rightarrow>
      if tok \<noteq> WITH then
        Inr (\<lparr>CreateUserStatement.Name = ident, Password = password,
              CreateUserStatement.Privilege = None\<rparr>, unscan p)
      else
        case parseTokens p [ALL', PRIVILEGES] of Inl err \<Rightarrow> Inl err | Inr (u, p) \<Rightarrow>
        Inr (\<lparr>CreateUserStatement.Name = ident, Password = password,
              CreateUserStatement.Privilege = Some AllPrivileges\<rparr>, p))"

definition parseDropUserStatement :: "Parser \<Rightarrow> DropUserStatement result" where
  "parseDropUserStatement p =
     (case parseIdent p of Inl err \<Rightarrow> Inl err | Inr (lit, p) \<Rightarrow>
      Inr (\<lparr>DropUserStatement.Name = lit\<rparr>, p))"

definition parseDropContinuousQueryStatement :: "Parser \<Rightarrow> DropContinuousQueryStatement result" where
  "parseDropContinuousQueryStatement p =
     (case scanIgnoreWhitespace p of ((tok, pos, lit), p) \<Rightarrow>
      if tok \<noteq> QUERY then Inl (newParseError (tokstr tok lit) [''QUERY''] pos) else
      case parseIdent p of Inl err \<Rightarrow> Inl err | Inr (lit, p) \<Rightarrow>
      Inr (\<lparr>DropContinuousQueryStatement.Name = lit\<rparr>, p))"

definition parseCreateRetentionPolicyStatement ::
  "Parser \<Rightarrow> CreateRetentionPolicyStatement result" where
  "parseCreateRetentionPolicyStatement p =
     (case parseIdent p of Inl err \<Rightarrow> Inl err | Inr (ident, p) \<Rightarrow>
      case scanIgnoreWhitespace p of ((tok, pos, lit), p) \<Rightarrow>
      if tok \<noteq> ON then Inl (newParseError (tokstr tok lit) [''ON''] pos) else
      case parseIdent p of Inl err \<Rightarrow> Inl err | Inr (database, p) \<Rightarrow>
      case scanIgnoreWhitespace p of ((tok, pos, lit), p) \<Rightarrow>
      if tok \<noteq> DURATION then Inl (newParseError (tokstr tok lit) [''DURATION''] pos) else
      case parseDuration p of Inl err \<Rightarrow> Inl err | Inr (d, p) \<Rightarrow>
      case scanIgnoreWhitespace p of ((tok, pos, lit), p) \<Rightarrow>
      if tok \<noteq> REPLICATION then Inl (newParseError (tokstr tok lit) [''REPLICATION''] pos) else
      case parseInt p 1 MaxInt32 of Inl err \<Rightarrow> Inl err | Inr (n, p) \<Rightarrow>
      case scanIgnoreWhitespace p of ((tok, pos, lit), p) \<Rightarrow>
      Inr (\<lparr>CreateRetentionPolicyStatement.Name = ident,
            CreateRetentionPolicyStatement.Database = database,
            CreateRetentionPolicyStatement.Duration = d,
            CreateRetentionPolicyStatement.Replication = n,
            CreateRetentionPolicyStatement.Default = (tok = DEFAULT)\<rparr>,
           if tok = DEFAULT then p else unscan p))"

definition maxNumOptions :: nat where
  "maxNumOptions = 3"

function parseAlterRetentionPolicy_options ::
  "nat \<Rightarrow> AlterRetentionPolicyStatement \<Rightarrow> Parser \<Rightarrow> AlterRetentionPolicyStatement result"
where
  "parseAlterRetentionPolicy_options i stmt p =
     (if i < maxNumOptions then
        (case scanIgnoreWhitespace p of ((tok, pos, lit), p) \<Rightarrow>
         if tok = DURATION then
           (case parseDuration p of Inl err \<Rightarrow> Inl err | Inr (d, p) \<Rightarrow>
            parseAlterRetentionPolicy_options (i + 1)
              (stmt\<lparr>AlterRetentionPolicyStatement.Duration := Some d\<rparr>) p)
         else if tok = REPLICATION then
           (case parseInt p 1 MaxInt32 of Inl err \<Rightarrow> Inl err | Inr (n, p) \<Rightarrow>
            parseAlterRetentionPolicy_options (i + 1)
              (stmt\<lparr>AlterRetentionPolicyStatement.Replication := Some n\<rparr>) p)
         else if tok = DEFAULT then
           parseAlterRetentionPolicy_options (i + 1)
             (stmt\<lparr>AlterRetentionPolicyStatement.Default := True\<rparr>) p
         else if i < 1 then
           Inl (newParseError (tokstr tok lit) [''DURATION'', ''RETENTION'', ''DEFAULT''] pos)
         else Inr (stmt, unscan p))
      else Inr (stmt, p))"
  by pat_completeness auto
termination
  by (relation "measure (\<lambda>(i, stmt, p). maxNumOptions - i)") auto

declare parseAlterRetentionPolicy_options.simps [simp del]

definition parseAlterRetentionPolicyStatement ::
  "Parser \<Rightarrow> AlterRetentionPolicyStatement result" where
  "parseAlterRetentionPolicyStatement p =
     (case parseIdent p of Inl err \<Rightarrow> Inl err | Inr (ident, p) \<Rightarrow>
      case scanIgnoreWhitespace p of ((tok, pos, lit), p) \<Rightarrow>
      if tok \<noteq> ON then Inl (newParseError (tokstr tok lit) [''ON''] pos) else
      case parseIdent p of Inl err \<Rightarrow> Inl err | Inr (database, p) \<Rightarrow>
      parseAlterRetentionPolicy_options 0
        \<lparr>AlterRetentionPolicyStatement.Name = ident,
         AlterRetentionPolicyStatement.Database = database,
         AlterRetentionPolicyStatement.Duration = None,
         AlterRetentionPolicyStatement.Replication = None,
         AlterRetentionPolicyStatement.Default = False\<rparr> p)"

text \<open>In \<open>parseRevokeStatement\<close> and \<open>parseGrantStatement\<close> the block of the
  \<open>ON\<close> clause declares a \<open>lit\<close> of its own, so the scan that ends the block assigns
  \<open>tok\<close> and \<open>pos\<close> of the function but leaves its \<open>lit\<close> as it was.\<close>

definition parseRevokeStatement :: "Parser \<Rightarrow> RevokeStatement result" where
  "parseRevokeStatement p =
     (case parsePrivilege p of Inl err \<Rightarrow> Inl err | Inr (priv, p) \<Rightarrow>
      case scanIgnoreWhitespace p of ((tok, pos, lit), p) \<Rightarrow>
      case
        (if tok = ON then
           (case parseIdent p of Inl err \<Rightarrow> Inl err | Inr (on, p) \<Rightarrow>
            case scanIgnoreWhitespace p of ((tok, pos, lit'), p) \<Rightarrow> Inr ((on, tok, pos), p))
         else if priv \<noteq> AllPrivileges then Inl (newParseError (tokstr tok lit) [''ON''] pos)
         else Inr (([], tok, pos), p))
      of Inl err \<Rightarrow> Inl err | Inr ((on, tok, pos), p) \<Rightarrow>
      if tok \<noteq> FROM then Inl (newParseError (tokstr tok lit) [''FROM''] pos) else
      case parseIdent p of Inl err \<Rightarrow> Inl err | Inr (user, p) \<Rightarrow>
      Inr (\<lparr>RevokeStatement.Privilege = priv, RevokeStatement.On = on,
            RevokeStatement.User = user\<rparr>, p))"

definition parseGrantStatement :: "Parser \<Rightarrow> GrantStatement result" where
  "parseGrantStatement p =
     (case parsePrivilege p of Inl err \<Rightarrow> Inl err | Inr (priv, p) \<Rightarrow>
      case scanIgnoreWhitespace p of ((tok, pos, lit), p) \<Rightarrow>
      case
        (if tok = ON then
           (case parseIdent p of Inl err \<Rightarrow> Inl err | Inr (on, p) \<Rightarrow>
            case scanIgnoreWhitespace p of ((tok, pos, lit'), p) \<Rightarrow> Inr ((on, tok, pos), p))
         else if priv \<noteq> AllPrivileges then Inl (newParseError (tokstr tok lit) [''ON''] pos)
         else Inr (([], tok, pos), p))
      of Inl err \<Rightarrow> Inl err | Inr ((on, tok, pos), p) \<Rightarrow>
      if tok \<noteq> TO then Inl (newParseError (tokstr tok lit) [''TO''] pos) else
      case parseIdent p of Inl err \<Rightarrow> Inl err | Inr (user, p) \<Rightarrow>
      Inr (\<lparr>GrantStatement.Privilege = priv, GrantStatement.On = on,
            GrantStatement.User = user\<rparr>, p))"

text \<open>
  Modelled from the spec: \<open>Aggregated\<close> and \<open>GroupByInterval\<close> are methods of the
  select statement in ast.go, which is not among the sources. A statement is aggregated
  when a field is a call; its interval is the duration of the first \<open>time(<duration>)\<close>
  call among the dimensions, zero when there is none. The spec describes no failure of
  \<open>GroupByInterval\<close>: the error that the parser tests for is never set.
\<close>

definition Aggregated :: "('f, 't, 'r) SelectStatement \<Rightarrow> bool" where
  "Aggregated stmt =
     list_ex (\<lambda>f. case Field.Expr f of Call name args \<Rightarrow> True | _ \<Rightarrow> False) (Fields stmt)"

fun time_interval :: "('f, 't, 'r) Dimension list \<Rightarrow> Duration" where
  "time_interval [] = 0"
| "time_interval (d # ds) =
     (case Dimension.Expr d of
        Call name args \<Rightarrow>
          (if name = ''time'' then (case args of [DurationLiteral v] \<Rightarrow> v | _ \<Rightarrow> 0)
           else time_interval ds)
      | _ \<Rightarrow> time_interval ds)"

definition GroupByInterval :: "('f, 't, 'r) SelectStatement \<Rightarrow> Duration \<times> string option" where
  "GroupByInterval stmt = (time_interval (Dimensions stmt), None)"

definition parseCreateContinuousQueryStatement ::
  "('f, 't, 'r) golib \<Rightarrow> Parser \<Rightarrow> ('f, 't, 'r) CreateContinuousQueryStatement result"
where
  "parseCreateContinuousQueryStatement L p =
     (case scanIgnoreWhitespace p of ((tok, pos, lit), p) \<Rightarrow>
      if tok \<noteq> QUERY then Inl (newParseError (tokstr tok lit) [''QUERY''] pos) else
      case parseIdent p of Inl err \<Rightarrow> Inl err | Inr (ident, p) \<Rightarrow>
      case scanIgnoreWhitespace p of ((tok, pos, lit), p) \<Rightarrow>
      if tok \<noteq> ON then Inl (newParseError (tokstr tok lit) [''ON''] pos) else
      case parseIdent p of Inl err \<Rightarrow> Inl err | Inr (database, p) \<Rightarrow>
      case parseTokens p [BEGIN, SELECT] of Inl err \<Rightarrow> Inl err | Inr (u, p) \<Rightarrow>
      case parseSelectStatement L p targetRequired of Inl err \<Rightarrow> Inl err | Inr (source, p) \<Rightarrow>
      case
        (if Aggregated source then
           (case GroupByInterval source of (d, err) \<Rightarrow>
            if d = 0 \<or> err \<noteq> None then
              (case scanIgnoreWhitespace (unscan (unscan p)) of ((tok, pos, lit), p) \<Rightarrow>
               Inl (newParseError (tokstr tok lit)
                     (''GROUP BY time(...)'' # (case err of None \<Rightarrow> [] | Some e \<Rightarrow> [e])) pos))
            else Inr ((), p))
         else Inr ((), p))
      of Inl err \<Rightarrow> Inl err | Inr (u, p) \<Rightarrow>
      case scanIgnoreWhitespace p of ((tok, pos, lit), p) \<Rightarrow>
      if tok \<noteq> END then Inl (newParseError (tokstr tok lit) [''END''] pos) else
      Inr (\<lparr>CreateContinuousQueryStatement.Name = ident,
            CreateContinuousQueryStatement.Database = database,
            CreateContinuousQueryStatement.Source = source\<rparr>, p))"

section \<open>The parser: the statement and the query\<close>

definition parseShowStatement :: "('f, 't, 'r) golib \<Rightarrow> Parser \<Rightarrow> ('f, 't, 'r) Statement result" where
  "parseShowStatement L p =
     (case scanIgnoreWhitespace p of ((tok, pos, lit), p) \<Rightarrow>
      if tok = CONTINUOUS then
        (case parseShowContinuousQueriesStatement p of Inl err \<Rightarrow> Inl err
         | Inr (u, p) \<Rightarrow> Inr (ShowContinuousQueries, p))
      else if tok = DATABASES then Inr (ShowDatabases, p)
      else if tok = FIELD then
        (case scanIgnoreWhitespace p of ((tok, pos, lit), p) \<Rightarrow>
         if tok = KEYS then
           (case parseShowFieldKeysStatement p of Inl err \<Rightarrow> Inl err
            | Inr (s, p) \<Rightarrow> Inr (ShowFieldKeys s, p))
         else Inl (newParseError (tokstr tok lit) [''KEYS'', ''VALUES''] pos))
      else if tok = MEASUREMENTS then
        (case parseShowMeasurementsStatement L p of Inl err \<Rightarrow> Inl err
         | Inr (s, p) \<Rightarrow> Inr (ShowMeasurements s, p))
      else if tok = RETENTION then
        (case scanIgnoreWhitespace p of ((tok, pos, lit), p) \<Rightarrow>
         if tok = POLICIES then
           (case parseShowRetentionPoliciesStatement p of Inl err \<Rightarrow> Inl err
            | Inr (s, p) \<Rightarrow> Inr (ShowRetentionPolicies s, p))
         else Inl (newParseError (tokstr tok lit) [''POLICIES''] pos))
      else if tok = SERIES then
        (case parseShowSeriesStatement L p of Inl err \<Rightarrow> Inl err
         | Inr (s, p) \<Rightarrow> Inr (ShowSeries s, p))
      else if tok = TAG then
        (case scanIgnoreWhitespace p of ((tok, pos, lit), p) \<Rightarrow>
         if tok = KEYS then
           (case parseShowTagKeysStatement L p of Inl err \<Rightarrow> Inl err
            | Inr (s, p) \<Rightarrow> Inr (ShowTagKeys s, p))
         else if tok = VALUES then
           (case parseShowTagValuesStatement L p of Inl err \<Rightarrow> Inl err
            | Inr (s, p) \<Rightarrow> Inr (ShowTagValues s, p))
         else Inl (newParseError (tokstr tok lit) [''KEYS'', ''VALUES''] pos))
      else if tok = USERS then Inr (ShowUsers, p)
      else
        Inl (newParseError (tokstr tok lit)
              [''CONTINUOUS'', ''DATABASES'', ''FIELD'', ''MEASUREMENTS'', ''RETENTION'', ''SERIES'',
               ''TAG'', ''USERS''] pos))"

definition parseCreateStatement :: "('f, 't, 'r) golib \<Rightarrow> Parser \<Rightarrow> ('f, 't, 'r) Statement result" where
  "parseCreateStatement L p =
     (case scanIgnoreWhitespace p of ((tok, pos, lit), p) \<Rightarrow>
      if tok = CONTINUOUS then
        (case parseCreateContinuousQueryStatement L p of Inl err \<Rightarrow> Inl err
         | Inr (s, p) \<Rightarrow> Inr (CreateContinuousQuery s, p))
      else if tok = DATABASE then
        (case parseCreateDatabaseStatement p of Inl err \<Rightarrow> Inl err
         | Inr (s, p) \<Rightarrow> Inr (CreateDatabase s, p))
      else if tok = USER then
        (case parseCreateUserStatement p of Inl err \<Rightarrow> Inl err
         | Inr (s, p) \<Rightarrow> Inr (CreateUser s, p))
      else if tok = RETENTION then
        (case scanIgnoreWhitespace p of ((tok, pos, lit), p) \<Rightarrow>
         if tok \<noteq> POLICY then Inl (newParseError (tokstr tok lit) [''POLICY''] pos)
         else
           case parseCreateRetentionPolicyStatement p of Inl err \<Rightarrow> Inl err
           | Inr (s, p) \<Rightarrow> Inr (CreateRetentionPolicy s, p))
      else
        Inl (newParseError (tokstr tok lit)
              [''CONTINUOUS'', ''DATABASE'', ''USER'', ''RETENTION''] pos))"

definition parseDropStatement :: "('f, 't, 'r) golib \<Rightarrow> Parser \<Rightarrow> ('f, 't, 'r) Statement result" where
  "parseDropStatement L p =
     (case scanIgnoreWhitespace p of ((tok, pos, lit), p) \<Rightarrow>
      if tok = SERIES then
        (case parseDropSeriesStatement L p of Inl err \<Rightarrow> Inl err
         | Inr (s, p) \<Rightarrow> Inr (DropSeries s, p))
      else if tok = MEASUREMENT then
        (case parseDropMeasurementStatement p of Inl err \<Rightarrow> Inl err
         | Inr (s, p) \<Rightarrow> Inr (DropMeasurement s, p))
      else if tok = CONTINUOUS then
        (case parseDropContinuousQueryStatement p of Inl err \<Rightarrow> Inl err
         | Inr (s, p) \<Rightarrow> Inr (DropContinuousQuery s, p))
      else if tok = DATABASE then
        (case parseDropDatabaseStatement p of Inl err \<Rightarrow> Inl err
         | Inr (s, p) \<Rightarrow> Inr (DropDatabase s, p))
      else if tok = RETENTION then
        (case scanIgnoreWhitespace p of ((tok, pos, lit), p) \<Rightarrow>
         if tok \<noteq> POLICY then Inl (newParseError (tokstr tok lit) [''POLICY''] pos)
         else
           case parseDropRetentionPolicyStatement p of Inl err \<Rightarrow> Inl err
           | Inr (s, p) \<Rightarrow> Inr (DropRetentionPolicy s, p))
      else if tok = USER then
        (case parseDropUserStatement p of Inl err \<Rightarrow> Inl err
         | Inr (s, p) \<Rightarrow> Inr (DropUser s, p))
      else
        Inl (newParseError (tokstr tok lit) [''SERIES'', ''CONTINUOUS'', ''MEASUREMENT''] pos))"

definition parseAlterStatement :: "Parser \<Rightarrow> ('f, 't, 'r) Statement result" where
  "parseAlterStatement p =
     (case scanIgnoreWhitespace p of ((tok, pos, lit), p) \<Rightarrow>
      if tok = RETENTION then
        (case scanIgnoreWhitespace p of ((tok, pos, lit), p) \<Rightarrow>
         if tok \<noteq> POLICY then Inl (newParseError (tokstr tok lit) [''POLICY''] pos)
         else
           case parseAlterRetentionPolicyStatement p of Inl err \<Rightarrow> Inl err
           | Inr (s, p) \<Rightarrow> Inr (AlterRetentionPolicy s, p))
      else Inl (newParseError (tokstr tok lit) [''RETENTION''] pos))"

definition ParseStatement :: "('f, 't, 'r) golib \<Rightarrow> Parser \<Rightarrow> ('f, 't, 'r) Statement result" where
  "ParseStatement L p =
     (case scanIgnoreWhitespace p of ((tok, pos, lit), p) \<Rightarrow>
      if tok = SELECT then
        (case parseSelectStatement L p targetNotRequired of Inl err \<Rightarrow> Inl err
         | Inr (s, p) \<Rightarrow> Inr (Select s, p))
      else if tok = DELETE then
        (case parseDeleteStatement L p of Inl err \<Rightarrow> Inl err
         | Inr (s, p) \<Rightarrow> Inr (Delete s, p))
      else if tok = SHOW then parseShowStatement L p
      else if tok = CREATE then parseCreateStatement L p
      else if tok = DROP then parseDropStatement L p
      else if tok = GRANT then
        (case parseGrantStatement p of Inl err \<Rightarrow> Inl err | Inr (s, p) \<Rightarrow> Inr (Grant s, p))
      else if tok = REVOKE then
        (case parseRevokeStatement p of Inl err \<Rightarrow> Inl err | Inr (s, p) \<Rightarrow> Inr (Revoke s, p))
      else if tok = ALTER then parseAlterStatement p
      else Inl (newParseError (tokstr tok lit) [''SELECT''] pos))"

lemma parseIdentList_loop_remaining:
  "parseIdentList_loop idents p = Inr (x, p') \<Longrightarrow> remaining p' \<le> remaining p"
proof (induction idents p rule: parseIdentList_loop.induct)
  case (1 idents p)
  obtain tok pos lit p1 where s: "scanIgnoreWhitespace p = ((tok, pos, lit), p1)"
    by (metis prod_cases3 surj_pair)
  note r = scanIgnoreWhitespace_remaining [OF s]
  show ?case
  proof (cases "tok = COMMA")
    case False
    with "1.prems" s r show ?thesis by (simp add: parseIdentList_loop.simps [of idents p])
  next
    case True
    with "1.prems" s obtain ident p2 where i: "parseIdent p1 = Inr (ident, p2)"
      and l: "parseIdentList_loop (idents @ [ident]) p2 = Inr (x, p')"
      by (auto simp: parseIdentList_loop.simps [of idents p] split: sum.splits)
    from "1.IH" [OF s [symmetric] refl refl _ i refl l] True parseIdent_remaining [OF i] r(1)
    show ?thesis by simp
  qed
qed

lemma parseIdentList_remaining: "parseIdentList p = Inr (x, p') \<Longrightarrow> remaining p' \<le> remaining p"
  by (auto simp: parseIdentList_def split: sum.splits
      dest!: parseIdent_remaining parseIdentList_loop_remaining)

lemma parseFields_loop_remaining:
  "parseFields_loop L fs p = Inr (x, p') \<Longrightarrow> remaining p' \<le> remaining p"
proof (induction L fs p rule: parseFields_loop.induct)
  case (1 L fs p)
  from "1.prems" obtain f p1 where f: "parseField L p = Inr (f, p1)"
    by (auto simp: parseFields_loop.simps [of L fs p] split: sum.splits)
  obtain tok pos lit p2 where s: "scan p1 = ((tok, pos, lit), p2)"
    by (metis prod_cases3 surj_pair)
  note r = scan_remaining [OF s] parseField_remaining [OF f]
  show ?case
  proof (cases "tok = COMMA")
    case False
    with "1.prems" f s r show ?thesis by (simp add: parseFields_loop.simps [of L fs p])
  next
    case True
    with "1.prems" f s have l: "parseFields_loop L (fs @ [f]) p2 = Inr (x, p')"
      by (simp add: parseFields_loop.simps [of L fs p])
    from "1.IH" [OF f refl s [symmetric] refl refl _ l] True r show ?thesis by simp
  qed
qed

lemma parseFields_remaining: "parseFields L p = Inr (x, p') \<Longrightarrow> remaining p' \<le> remaining p"
  by (auto simp: parseFields_def split: prod.splits if_splits
      dest!: scanIgnoreWhitespace_D parseFields_loop_remaining)

lemma parseSource_measurements_remaining:
  "parseSource_measurements ms p = Inr (x, p') \<Longrightarrow> remaining p' \<le> remaining p"
proof (induction ms p rule: parseSource_measurements.induct)
  case (1 ms p)
  obtain tok pos lit p1 where s: "scanIgnoreWhitespace p = ((tok, pos, lit), p1)"
    by (metis prod_cases3 surj_pair)
  obtain tok' pos' lit' p2 where s': "scan p1 = ((tok', pos', lit'), p2)"
    by (metis prod_cases3 surj_pair)
  note r = scanIgnoreWhitespace_remaining [OF s] scan_remaining [OF s']
  from "1.prems" s have i: "tok = IDENT"
    by (auto simp: parseSource_measurements.simps [of ms p] split: if_splits)
  show ?case
  proof (cases "tok' = COMMA")
    case False
    with "1.prems" s s' i r show ?thesis
      by (simp add: parseSource_measurements.simps [of ms p])
  next
    case True
    with "1.prems" s s' i
    have l: "parseSource_measurements (ms @ [\<lparr>Measurement.Name = lit\<rparr>]) p2 = Inr (x, p')"
      by (simp add: parseSource_measurements.simps [of ms p])
    from "1.IH" [OF s [symmetric] refl refl _ s' [symmetric] refl refl _ l] i True r
    show ?thesis by simp
  qed
qed

lemma parseSource_remaining: "parseSource p = Inr (x, p') \<Longrightarrow> remaining p' \<le> remaining p"
  by (auto simp: parseSource_def Let_def split: prod.splits if_splits sum.splits
      dest!: scanIgnoreWhitespace_D scan_D parseSource_measurements_remaining)

lemma parseDimensions_loop_remaining:
  "parseDimensions_loop L ds p = Inr (x, p') \<Longrightarrow> remaining p' \<le> remaining p"
proof (induction L ds p rule: parseDimensions_loop.induct)
  case (1 L ds p)
  from "1.prems" obtain d p1 where d: "parseDimension L p = Inr (d, p1)"
    by (auto simp: parseDimensions_loop.simps [of L ds p] split: sum.splits)
  obtain tok pos lit p2 where s: "scan p1 = ((tok, pos, lit), p2)"
    by (metis prod_cases3 surj_pair)
  note r = scan_remaining [OF s] parseDimension_remaining [OF d]
  show ?case
  proof (cases "tok = COMMA")
    case False
    with "1.prems" d s r show ?thesis by (simp add: parseDimensions_loop.simps [of L ds p])
  next
    case True
    with "1.prems" d s have l: "parseDimensions_loop L (ds @ [d]) p2 = Inr (x, p')"
      by (simp add: parseDimensions_loop.simps [of L ds p])
    from "1.IH" [OF d refl s [symmetric] refl refl _ l] True r show ?thesis by simp
  qed
qed

lemma parseDimensions_remaining:
  "parseDimensions L p = Inr (x, p') \<Longrightarrow> remaining p' \<le> remaining p"
  by (auto simp: parseDimensions_def split: prod.splits if_splits
      dest!: scanIgnoreWhitespace_D parseDimensions_loop_remaining)

lemma parseSortFields_loop_remaining:
  "parseSortFields_loop fs p = Inr (x, p') \<Longrightarrow> remaining p' \<le> remaining p"
proof (induction fs p rule: parseSortFields_loop.induct)
  case (1 fs p)
  obtain tok pos lit p1 where s: "scanIgnoreWhitespace p = ((tok, pos, lit), p1)"
    by (metis prod_cases3 surj_pair)
  note r = scanIgnoreWhitespace_remaining [OF s]
  show ?case
  proof (cases "tok = COMMA")
    case False
    with "1.prems" s r show ?thesis by (simp add: parseSortFields_loop.simps [of fs p])
  next
    case True
    with "1.prems" s obtain f p2 where i: "parseSortField p1 = Inr (f, p2)"
      and l: "parseSortFields_loop (fs @ [f]) p2 = Inr (x, p')"
      by (auto simp: parseSortFields_loop.simps [of fs p] split: sum.splits)
    from "1.IH" [OF s [symmetric] refl refl _ i refl l] True parseSortField_remaining [OF i] r(1)
    show ?thesis by simp
  qed
qed

lemma parseSortFields_remaining:
  "parseSortFields p = Inr (x, p') \<Longrightarrow> remaining p' \<le> remaining p"
  by (auto simp: parseSortFields_def split: sum.splits
      dest!: parseSortField_remaining parseSortFields_loop_remaining)

lemma parseOrderBy_remaining: "parseOrderBy p = Inr (x, p') \<Longrightarrow> remaining p' \<le> remaining p"
  by (auto simp: parseOrderBy_def split: prod.splits if_splits
      dest!: scanIgnoreWhitespace_D parseSortFields_remaining)

lemma parseTagKeys_remaining: "parseTagKeys p = Inr (x, p') \<Longrightarrow> remaining p' \<le> remaining p"
  by (auto simp: parseTagKeys_def split: prod.splits if_splits sum.splits
      dest!: scanIgnoreWhitespace_D parseTokens_remaining parseIdentList_remaining
        parseIdent_remaining)

lemmas clause_remaining =
  scanIgnoreWhitespace_D parseTokens_remaining parseInt_remaining parseUInt32_remaining
  parseDuration_remaining parseIdent_remaining parseString_remaining parsePrivilege_remaining
  parseOptionalTokenAndInt_remaining parseCondition_remaining parseTarget_remaining
  parseFields_remaining parseSource_remaining parseDimensions_remaining parseOrderBy_remaining
  parseTagKeys_remaining

lemma parseSelectStatement_remaining:
  "parseSelectStatement L p tr = Inr (x, p') \<Longrightarrow> remaining p' \<le> remaining p"
  by (auto simp: parseSelectStatement_def split: prod.splits if_splits sum.splits
      dest!: clause_remaining)

lemma parseDeleteStatement_remaining:
  "parseDeleteStatement L p = Inr (x, p') \<Longrightarrow> remaining p' \<le> remaining p"
  by (auto simp: parseDeleteStatement_def split: prod.splits if_splits sum.splits
      dest!: clause_remaining)

lemma parseShowSeriesStatement_remaining:
  "parseShowSeriesStatement L p = Inr (x, p') \<Longrightarrow> remaining p' \<le> remaining p"
  by (auto simp: parseShowSeriesStatement_def split: prod.splits if_splits sum.splits
      dest!: clause_remaining)

lemma parseShowMeasurementsStatement_remaining:
  "parseShowMeasurementsStatement L p = Inr (x, p') \<Longrightarrow> remaining p' \<le> remaining p"
  by (auto simp: parseShowMeasurementsStatement_def split: prod.splits if_splits sum.splits
      dest!: clause_remaining)

lemma parseShowRetentionPoliciesStatement_remaining:
  "parseShowRetentionPoliciesStatement p = Inr (x, p') \<Longrightarrow> remaining p' \<le> remaining p"
  by (auto simp: parseShowRetentionPoliciesStatement_def split: prod.splits if_splits sum.splits
      dest!: clause_remaining)

lemma parseShowTagKeysStatement_remaining:
  "parseShowTagKeysStatement L p = Inr (x, p') \<Longrightarrow> remaining p' \<le> remaining p"
  by (auto simp: parseShowTagKeysStatement_def split: prod.splits if_splits sum.splits
      dest!: clause_remaining)

lemma parseShowTagValuesStatement_remaining:
  "parseShowTagValuesStatement L p = Inr (x, p') \<Longrightarrow> remaining p' \<le> remaining p"
  by (auto simp: parseShowTagValuesStatement_def split: prod.splits if_splits sum.splits
      dest!: clause_remaining)

lemma parseShowFieldKeysStatement_remaining:
  "parseShowFieldKeysStatement p = Inr (x, p') \<Longrightarrow> remaining p' \<le> remaining p"
  by (auto simp: parseShowFieldKeysStatement_def split: prod.splits if_splits sum.splits
      dest!: clause_remaining)

lemma parseShowContinuousQueriesStatement_remaining:
  "parseShowContinuousQueriesStatement p = Inr (x, p') \<Longrightarrow> remaining p' \<le> remaining p"
  by (auto simp: parseShowContinuousQueriesStatement_def split: prod.splits if_splits sum.splits
      dest!: clause_remaining)

lemma parseDropMeasurementStatement_remaining:
  "parseDropMeasurementStatement p = Inr (x, p') \<Longrightarrow> remaining p' \<le> remaining p"
  by (auto simp: parseDropMeasurementStatement_def split: prod.splits if_splits sum.splits
      dest!: clause_remaining)

lemma parseDropSeriesStatement_remaining:
  "parseDropSeriesStatement L p = Inr (x, p') \<Longrightarrow> remaining p' \<le> remaining p"
  by (auto simp: parseDropSeriesStatement_def split: prod.splits if_splits sum.splits
      dest!: clause_remaining)

lemma parseCreateDatabaseStatement_remaining:
  "parseCreateDatabaseStatement p = Inr (x, p') \<Longrightarrow> remaining p' \<le> remaining p"
  by (auto simp: parseCreateDatabaseStatement_def split: prod.splits if_splits sum.splits
      dest!: clause_remaining)

lemma parseDropDatabaseStatement_remaining:
  "parseDropDatabaseStatement p = Inr (x, p') \<Longrightarrow> remaining p' \<le> remaining p"
  by (auto simp: parseDropDatabaseStatement_def split: prod.splits if_splits sum.splits
      dest!: clause_remaining)

lemma parseDropRetentionPolicyStatement_remaining:
  "parseDropRetentionPolicyStatement p = Inr (x, p') \<Longrightarrow> remaining p' \<le> remaining p"
  by (auto simp: parseDropRetentionPolicyStatement_def split: prod.splits if_splits sum.splits
      dest!: clause_remaining)

lemma parseCreateUserStatement_remaining:
  "parseCreateUserStatement p = Inr (x, p') \<Longrightarrow> remaining p' \<le> remaining p"
  by (auto simp: parseCreateUserStatement_def split: prod.splits if_splits sum.splits
      dest!: clause_remaining)

lemma parseDropUserStatement_remaining:
  "parseDropUserStatement p = Inr (x, p') \<Longrightarrow> remaining p' \<le> remaining p"
  by (auto simp: parseDropUserStatement_def split: prod.splits if_splits sum.splits
      dest!: clause_remaining)

lemma parseDropContinuousQueryStatement_remaining:
  "parseDropContinuousQueryStatement p = Inr (x, p') \<Longrightarrow> remaining p' \<le> remaining p"
  by (auto simp: parseDropContinuousQueryStatement_def split: prod.splits if_splits sum.splits
      dest!: clause_remaining)

lemma parseCreateRetentionPolicyStatement_remaining:
  "parseCreateRetentionPolicyStatement p = Inr (x, p') \<Longrightarrow> remaining p' \<le> remaining p"
  by (auto simp: parseCreateRetentionPolicyStatement_def split: prod.splits if_splits sum.splits
      dest!: clause_remaining)

lemma parseAlterRetentionPolicy_options_remaining:
  "parseAlterRetentionPolicy_options i stmt p = Inr (x, p') \<Longrightarrow> remaining p' \<le> remaining p"
proof (induction i stmt p rule: parseAlterRetentionPolicy_options.induct)
  case (1 i stmt p)
  show ?case
  proof (cases "i < maxNumOptions")
    case False
    with "1.prems" show ?thesis
      by (simp add: parseAlterRetentionPolicy_options.simps [of i stmt p])
  next
    case True
    obtain tok pos lit p1 where s: "scanIgnoreWhitespace p = ((tok, pos, lit), p1)"
      by (metis prod_cases3 surj_pair)
    note r = scanIgnoreWhitespace_remaining [OF s]
    note IH = "1.IH" [OF True s [symmetric] refl refl]
    consider (dur) "tok = DURATION" | (rep) "tok = REPLICATION" | (dflt) "tok = DEFAULT"
      | (other) "tok \<noteq> DURATION" "tok \<noteq> REPLICATION" "tok \<noteq> DEFAULT" by blast
    then show ?thesis
    proof cases
      case dur
      with "1.prems" True s obtain d p2 where d: "parseDuration p1 = Inr (d, p2)"
        and l: "parseAlterRetentionPolicy_options (i + 1)
                  (stmt\<lparr>AlterRetentionPolicyStatement.Duration := Some d\<rparr>) p2 = Inr (x, p')"
        by (auto simp: parseAlterRetentionPolicy_options.simps [of i stmt p] split: sum.splits)
      from IH(1) [OF dur d refl l] parseDuration_remaining [OF d] r(1) show ?thesis by simp
    next
      case rep
      with "1.prems" True s obtain n p2 where n: "parseInt p1 1 MaxInt32 = Inr (n, p2)"
        and l: "parseAlterRetentionPolicy_options (i + 1)
                  (stmt\<lparr>AlterRetentionPolicyStatement.Replication := Some n\<rparr>) p2 = Inr (x, p')"
        by (auto simp: parseAlterRetentionPolicy_options.simps [of i stmt p] split: sum.splits)
      have "tok \<noteq> DURATION" using rep by simp
      from IH(2) [OF this rep n refl l] parseInt_remaining [OF n] r(1) show ?thesis by simp
    next
      case dflt
      with "1.prems" True s
      have l: "parseAlterRetentionPolicy_options (i + 1)
                  (stmt\<lparr>AlterRetentionPolicyStatement.Default := True\<rparr>) p1 = Inr (x, p')"
        by (auto simp: parseAlterRetentionPolicy_options.simps [of i stmt p])
      have "tok \<noteq> DURATION" "tok \<noteq> REPLICATION" using dflt by simp_all
      from IH(3) [OF this dflt l] r(1) show ?thesis by simp
    next
      case other
      with "1.prems" True s r show ?thesis
        by (auto simp: parseAlterRetentionPolicy_options.simps [of i stmt p] split: if_splits)
    qed
  qed
qed

lemma parseAlterRetentionPolicyStatement_remaining:
  "parseAlterRetentionPolicyStatement p = Inr (x, p') \<Longrightarrow> remaining p' \<le> remaining p"
  by (auto simp: parseAlterRetentionPolicyStatement_def split: prod.splits if_splits sum.splits
      dest!: clause_remaining parseAlterRetentionPolicy_options_remaining)

lemma parseRevokeStatement_remaining:
  "parseRevokeStatement p = Inr (x, p') \<Longrightarrow> remaining p' \<le> remaining p"
  by (auto simp: parseRevokeStatement_def split: prod.splits if_splits sum.splits
      dest!: clause_remaining)

lemma parseGrantStatement_remaining:
  "parseGrantStatement p = Inr (x, p') \<Longrightarrow> remaining p' \<le> remaining p"
  by (auto simp: parseGrantStatement_def split: prod.splits if_splits sum.splits
      dest!: clause_remaining)

lemma parseCreateContinuousQueryStatement_remaining:
  "parseCreateContinuousQueryStatement L p = Inr (x, p') \<Longrightarrow> remaining p' \<le> remaining p"
  by (auto simp: parseCreateContinuousQueryStatement_def split: prod.splits if_splits sum.splits
      dest!: clause_remaining parseSelectStatement_remaining)

lemmas statement_remaining =
  scanIgnoreWhitespace_D parseSelectStatement_remaining parseDeleteStatement_remaining
  parseShowSeriesStatement_remaining parseShowMeasurementsStatement_remaining
  parseShowRetentionPoliciesStatement_remaining parseShowTagKeysStatement_remaining
  parseShowTagValuesStatement_remaining parseShowFieldKeysStatement_remaining
  parseShowContinuousQueriesStatement_remaining parseDropMeasurementStatement_remaining
  parseDropSeriesStatement_remaining parseCreateDatabaseStatement_remaining
  parseDropDatabaseStatement_remaining parseDropRetentionPolicyStatement_remaining
  parseCreateUserStatement_remaining parseDropUserStatement_remaining
  parseDropContinuousQueryStatement_remaining parseCreateRetentionPolicyStatement_remaining
  parseAlterRetentionPolicyStatement_remaining parseRevokeStatement_remaining
  parseGrantStatement_remaining parseCreateContinuousQueryStatement_remaining

lemma parseShowStatement_remaining:
  "parseShowStatement L p = Inr (x, p') \<Longrightarrow> remaining p' \<le> remaining p"
  by (auto simp: parseShowStatement_def split: prod.splits if_splits sum.splits
      dest!: statement_remaining)

lemma parseCreateStatement_remaining:
  "parseCreateStatement L p = Inr (x, p') \<Longrightarrow> remaining p' \<le> remaining p"
  by (auto simp: parseCreateStatement_def split: prod.splits if_splits sum.splits
      dest!: statement_remaining)

lemma parseDropStatement_remaining:
  "parseDropStatement L p = Inr (x, p') \<Longrightarrow> remaining p' \<le> remaining p"
  by (auto simp: parseDropStatement_def split: prod.splits if_splits sum.splits
      dest!: statement_remaining)

lemma parseAlterStatement_remaining:
  "parseAlterStatement p = Inr (x, p') \<Longrightarrow> remaining p' \<le> remaining p"
  by (auto simp: parseAlterStatement_def split: prod.splits if_splits sum.splits
      dest!: statement_remaining)

lemma ParseStatement_remaining:
  "ParseStatement L p = Inr (x, p') \<Longrightarrow> remaining p' \<le> remaining p"
  by (auto simp: ParseStatement_def split: prod.splits if_splits sum.splits
      dest!: statement_remaining parseShowStatement_remaining parseCreateStatement_remaining
        parseDropStatement_remaining parseAlterStatement_remaining)

function ParseQuery_loop ::
  "('f, 't, 'r) golib \<Rightarrow> ('f, 't, 'r) Statement list \<Rightarrow> Parser \<Rightarrow> ('f, 't, 'r) Query result"
where
  "ParseQuery_loop L statements p =
     (case ParseStatement L p of Inl err \<Rightarrow> Inl err | Inr (s, p1) \<Rightarrow>
      case scanIgnoreWhitespace p1 of ((tok, pos, lit), p2) \<Rightarrow>
      if tok \<noteq> SEMICOLON \<and> tok \<noteq> EOF
      then Inl (newParseError (tokstr tok lit) ['';'', ''EOF''] pos)
      else if tok = EOF then Inr (\<lparr>Statements = statements @ [s]\<rparr>, p2)
      else ParseQuery_loop L (statements @ [s]) p2)"
  by pat_completeness auto
termination
  by (relation "measure (\<lambda>(L, statements, p). remaining p)")
     (auto dest!: scanIgnoreWhitespace_D [OF sym] ParseStatement_remaining)

declare ParseQuery_loop.simps [simp del]

definition ParseQuery :: "('f, 't, 'r) golib \<Rightarrow> Parser \<Rightarrow> ('f, 't, 'r) Query result" where
  "ParseQuery L p =
     (case scanIgnoreWhitespace p of ((tok, pos, lit), p) \<Rightarrow>
      if tok = EOF then Inr (\<lparr>Statements = []\<rparr>, p)
      else ParseQuery_loop L [] (unscan p))"

section \<open>Decimal numbers: printing and parsing agree\<close>

lemma byte_digit_char: "0 \<le> d \<Longrightarrow> d < 10 \<Longrightarrow> byte (digit_char d) = 48 + d"
  by (simp add: byte_def digit_char_def)

lemma isDigit_digit_char: "0 \<le> d \<Longrightarrow> d < 10 \<Longrightarrow> isDigit (digit_char d)"
  by (simp add: isDigit_def in_range_def byte_digit_char)

lemma ParseUint_loop_snoc:
  "ParseUint_loop M n (xs @ [c]) =
     (case ParseUint_loop M n xs of
        (v, None) \<Rightarrow> ParseUint_loop M v [c]
      | (v, Some e) \<Rightarrow> (v, Some e))"
  by (induction xs arbitrary: n) (auto simp: Let_def)

lemma ParseUint_loop_digit:
  assumes "0 \<le> d" "d < 10" "0 \<le> q" "q * 10 + d \<le> M" "M < 2 ^ 64"
  shows "ParseUint_loop M q [digit_char d] = (q * 10 + d, None)"
proof -
  have "q < maxUint64 div 10 + 1" using assms by (simp add: maxUint64_def)
  moreover have "(q * 10 + d) mod 2 ^ 64 = q * 10 + d" using assms by simp
  ultimately show ?thesis
    using assms by (simp add: isDigit_digit_char byte_digit_char Let_def)
qed

lemma ParseUint_loop_utoa:
  "0 \<le> n \<Longrightarrow> n \<le> M \<Longrightarrow> M < 2 ^ 64 \<Longrightarrow> ParseUint_loop M 0 (utoa n) = (n, None)"
proof (induction n rule: utoa.induct)
  case (1 n)
  show ?case
  proof (cases "n < 10")
    case True
    with 1(2-) ParseUint_loop_digit [of n 0 M] show ?thesis
      by (subst utoa.simps) simp
  next
    case False
    have IH: "ParseUint_loop M 0 (utoa (n div 10)) = (n div 10, None)"
      using 1 False by simp
    have "ParseUint_loop M (n div 10) [digit_char (n mod 10)] = (n div 10 * 10 + n mod 10, None)"
      using 1(2-) by (intro ParseUint_loop_digit) simp_all
    then show ?thesis
      using False by (subst utoa.simps) (simp add: ParseUint_loop_snoc IH)
  qed
qed

lemma utoa_nonempty: "utoa n \<noteq> []"
  by (subst utoa.simps) simp

lemma utoa_digits: "0 \<le> n \<Longrightarrow> c \<in> set (utoa n) \<Longrightarrow> isDigit c"
proof (induction n rule: utoa.induct)
  case (1 n)
  show ?case
  proof (cases "n < 10")
    case True
    with 1(2,3) show ?thesis
      by (subst (asm) utoa.simps) (simp add: isDigit_digit_char)
  next
    case False
    with 1 show ?thesis
      by (subst (asm) (2) utoa.simps) (auto simp: isDigit_digit_char)
  qed
qed

lemma hd_utoa_digit: "0 \<le> n \<Longrightarrow> isDigit (hd (utoa n))"
  using utoa_digits [of n "hd (utoa n)"] utoa_nonempty [of n] by simp

lemma isDigit_not_sign: "isDigit c \<Longrightarrow> c \<noteq> CHR ''-'' \<and> c \<noteq> CHR ''+''"
  by (auto simp: isDigit_def in_range_def byte_def)

lemma ParseInt_itoa:
  assumes "0 \<le> n" "n < 2 ^ 63"
  shows "ParseInt (itoa n) 64 = (n, None)"
proof -
  have s: "hd (utoa n) \<noteq> CHR ''-''" "hd (utoa n) \<noteq> CHR ''+''"
    using hd_utoa_digit [OF assms(1)] isDigit_not_sign by blast+
  have "ParseUint_loop (2 ^ 64 - 1) 0 (utoa n) = (n, None)"
    using assms by (intro ParseUint_loop_utoa) simp_all
  then show ?thesis
    using assms s by (simp add: ParseInt_def itoa_def ParseUint_def utoa_nonempty)
qed

section \<open>The round trip of durations\<close>

lemma split_ascii: "\<forall>c\<in>set s. byte c < 128 \<Longrightarrow> split s = map (\<lambda>c. [c]) s"
proof (induction s)
  case Nil
  show ?case by (subst split.simps) simp
next
  case (Cons c cs)
  then show ?case by (subst split.simps) simp
qed

lemma concat_take_singletons: "concat (take k (map (\<lambda>c. [c]) s)) = take k s"
  by (induction s arbitrary: k) (auto simp: take_Cons split: nat.splits)

lemma concat_drop_singletons: "concat (drop k (map (\<lambda>c. [c]) s)) = drop k s"
  by (induction s arbitrary: k) (auto simp: drop_Cons split: nat.splits)

lemma isDigit_ascii: "isDigit c \<Longrightarrow> byte c < 128"
  by (simp add: isDigit_def in_range_def)

lemma wrap64_id: "- (2 ^ 63) \<le> x \<Longrightarrow> x < 2 ^ 63 \<Longrightarrow> wrap64 x = x"
  by (simp add: wrap64_def)

lemma m_not_C2: "CHR ''m'' \<noteq> char_of (194::int)"
proof
  assume "CHR ''m'' = char_of (194::int)"
  then have "byte (CHR ''m'') = byte (char_of (194::int))" by simp
  then show False by (simp add: byte_def)
qed

lemma micro_sign_neq: "''ms'' \<noteq> micro_sign" "[x] \<noteq> micro_sign"
  using m_not_C2 by (simp_all add: micro_sign_def)

lemma last_utoa_digit: "0 \<le> q \<Longrightarrow> isDigit (last (utoa q))"
  using utoa_digits [of q "last (utoa q)"] utoa_nonempty [of q] by simp

lemma ParseDuration_suffix:
  assumes q: "0 \<le> q" "q * U < 2 ^ 63"
    and uU: "(u, U) \<in> {(''ms'', Millisecond), (''s'', Second), (''m'', Minute), (''h'', Hour),
               (''d'', 24 * Hour), (''w'', 7 * 24 * Hour)}"
  shows "ParseDuration (itoa q @ u) = Inr (q * U)"
proof -
  have u: "u \<in> {''ms'', ''s'', ''m'', ''h'', ''d'', ''w''}" using uU by auto
  have unit_value_def: "U =
     (if u = ''ms'' then Millisecond else if u = ''s'' then Second else if u = ''m'' then Minute
      else if u = ''h'' then Hour else if u = ''d'' then 24 * Hour else 7 * 24 * Hour)"
    using uU by auto
  define ds where "ds = utoa q"
  have ds: "ds \<noteq> []" "\<forall>c\<in>set ds. isDigit c" "isDigit (last ds)"
    using q(1) by (auto simp: ds_def utoa_nonempty utoa_digits last_utoa_digit)
  have it: "itoa q = ds" using q(1) by (simp add: itoa_def ds_def)
  have uv: "1000000 \<le> U"
    using u by (auto simp: unit_value_def Millisecond_def Microsecond_def Second_def Minute_def Hour_def)
  have qr: "q < 2 ^ 63"
  proof -
    have "q * 1 \<le> q * U" using q(1) uv by (intro mult_left_mono) simp_all
    then show ?thesis using q(2) by simp
  qed
  have pi: "ParseInt ds 64 = (q, None)"
    using ParseInt_itoa [OF q(1) qr] it by simp
  have ascu: "\<forall>c\<in>set u. byte c < 128"
    using u by (auto simp: byte_def)
  have asc: "\<forall>c\<in>set (ds @ u). byte c < 128"
    using ds(2) ascu isDigit_ascii by auto
  have sp: "split (ds @ u) = map (\<lambda>c. [c]) (ds @ u)"
    by (rule split_ascii [OF asc])
  have lastu: "\<not> isDigit (last u)"
    using u by (auto simp: isDigit_def in_range_def byte_def)
  have nth: "map (\<lambda>c. [c]) (ds @ u) ! (length ds + length u - 1) = [last u]"
    using u by (auto simp: nth_append)
  have lm: "last ds \<noteq> CHR ''m''"
    using ds(3) by (auto simp: isDigit_def in_range_def byte_def)
  have len: "2 \<le> length ds + length u" "length ds + length u \<noteq> 1"
    using ds(1) u by (cases ds; auto)+
  have ms: "u \<noteq> ''ms'' \<Longrightarrow> drop (length ds + length u - 2) (ds @ u) \<noteq> ''ms''"
  proof -
    assume "u \<noteq> ''ms''"
    then obtain x where x: "u = [x]" using u by auto
    obtain bs l where bs: "ds = bs @ [l]"
      using ds(1) by (cases ds rule: rev_cases) auto
    have "drop (length ds + length u - 2) (ds @ u) = [last ds, x]"
      by (simp add: bs x)
    then show ?thesis using lm by simp
  qed
  have nn: "0 \<le> q * U" using q(1) uv by simp
  have w1: "wrap64 (q * U) = q * U"
    using q(2) nn by (intro wrap64_id) simp_all
  show ?thesis
  proof (cases "u = ''ms''")
    case True
    have sp': "split (ds @ ''ms'') = map (\<lambda>c. [c]) ds @ [''m'', ''s'']"
      using sp True by simp
    have n': "(map (\<lambda>c. [c]) ds @ [''m'', ''s'']) ! Suc (length ds) = ''s''"
      by (simp add: nth_append)
    have "ParseDuration (ds @ ''ms'') = Inr (wrap64 (q * Millisecond))"
      using ds(1) pi
      by (simp add: ParseDuration_def sp' n' Let_def isDigit_rune_def isDigit_def in_range_def
          byte_def micro_sign_neq)
    with True w1 show ?thesis by (simp add: it unit_value_def)
  next
    case False
    then obtain x where x: "u = [x]" using u by auto
    have xs: "x \<in> {CHR ''s'', CHR ''m'', CHR ''h'', CHR ''d'', CHR ''w''}" using u x False by auto
    have sp': "split (ds @ [x]) = map (\<lambda>c. [c]) ds @ [[x]]"
      using sp x by simp
    have n': "(map (\<lambda>c. [c]) ds @ [[x]]) ! length ds = [x]"
      by (simp add: nth_append)
    have xd: "\<not> isDigit x" using lastu x by simp
    have dr: "drop (length ds - Suc 0) (ds @ [x]) \<noteq> ''ms''" using ms [OF False] x by simp
    have unf: "ParseDuration (ds @ [x]) =
      (if x = CHR ''s'' then Inr (wrap64 (q * Second))
       else if x = CHR ''m'' then Inr (wrap64 (q * Minute))
       else if x = CHR ''h'' then Inr (wrap64 (q * Hour))
       else if x = CHR ''d'' then Inr (wrap64 (wrap64 (q * 24) * Hour))
       else Inr (wrap64 (wrap64 (wrap64 (q * 7) * 24) * Hour)))"
      using ds(1) pi xs xd dr
      by (auto simp: ParseDuration_def sp' n' Let_def isDigit_rune_def micro_sign_neq)
    have q24: "wrap64 (q * 24) = q * 24" if "x = CHR ''d''"
      using q that x by (intro wrap64_id) (simp_all add: unit_value_def Hour_def Minute_def Second_def Millisecond_def Microsecond_def)
    have q7: "wrap64 (q * 7) = q * 7" "wrap64 (q * 7 * 24) = q * 7 * 24" if "x = CHR ''w''"
      using q that x by (simp_all add: wrap64_id unit_value_def Hour_def Minute_def Second_def Millisecond_def Microsecond_def)
    from xs show ?thesis
      using w1 q24 q7 x
      by (auto simp: it unf unit_value_def mult.assoc)
  qed
qed


lemma ParseDuration_digits:
  assumes q: "0 \<le> q" "q * Microsecond < 2 ^ 63"
  shows "ParseDuration (itoa q) = Inr (q * Microsecond)"
proof -
  define ds where "ds = utoa q"
  have ds: "ds \<noteq> []" "\<forall>c\<in>set ds. isDigit c" "isDigit (last ds)"
    using q(1) by (auto simp: ds_def utoa_nonempty utoa_digits last_utoa_digit)
  have it: "itoa q = ds" using q(1) by (simp add: itoa_def ds_def)
  have qr: "q < 2 ^ 63" using q by (simp add: Microsecond_def)
  have pi: "ParseInt ds 64 = (q, None)"
    using ParseInt_itoa [OF q(1) qr] it by simp
  have w: "wrap64 (q * Microsecond) = q * Microsecond"
    using q by (intro wrap64_id) (simp_all add: Microsecond_def)
  have sp: "split ds = map (\<lambda>c. [c]) ds"
    using ds(2) isDigit_ascii by (intro split_ascii) auto
  obtain bs l where bs: "ds = bs @ [l]"
    using ds(1) by (cases ds rule: rev_cases) auto
  have l: "isDigit l" using ds(3) bs by simp
  have sp': "split (bs @ [l]) = map (\<lambda>c. [c]) bs @ [[l]]" using sp bs by simp
  have dg: "isDigit_rune ((map (\<lambda>c. [c]) bs @ [[l]]) ! length bs)"
    using l by (simp add: nth_append isDigit_rune_def)
  have pi': "ParseInt (bs @ [l]) 64 = (q, None)" using pi bs by simp
  have "ParseDuration (bs @ [l]) = Inr (wrap64 (q * Microsecond))"
    using pi' by (auto simp: ParseDuration_def sp' Let_def dg micro_sign_neq)
  then show ?thesis by (simp add: it w bs)
qed

lemma go_div_nonneg: "0 \<le> d \<Longrightarrow> 0 < U \<Longrightarrow> go_div d U = d div U"
  by (cases "d = 0") (simp_all add: go_div_def)

lemma go_mod_nonneg: "0 \<le> d \<Longrightarrow> 0 < U \<Longrightarrow> go_mod d U = d mod U"
  by (simp add: go_mod_def go_div_nonneg minus_mult_div_eq_mod)

lemma round_trip_unit:
  assumes d: "0 \<le> d" "d < 2 ^ 63" and U: "0 < U" "go_mod d U = 0"
    and uU: "(u, U) \<in> {(''ms'', Millisecond), (''s'', Second), (''m'', Minute), (''h'', Hour),
               (''d'', 24 * Hour), (''w'', 7 * 24 * Hour)}"
  shows "ParseDuration (itoa (go_div d U) @ u) = Inr d"
proof -
  have m: "d mod U = 0" using d U by (simp add: go_mod_nonneg)
  then have e: "d div U * U = d" by auto
  have "ParseDuration (itoa (d div U) @ u) = Inr (d div U * U)"
    using d U e by (intro ParseDuration_suffix [OF _ _ uU]) (simp_all add: pos_imp_zdiv_nonneg_iff)
  then show ?thesis using d U e by (simp add: go_div_nonneg)
qed


text \<open>
  Claim C4, as stated: for every non-negative duration \<open>d\<close>,
  \<open>ParseDuration(FormatDuration(d))\<close> returns \<open>d\<close>. A duration counts nanoseconds and
  \<open>FormatDuration\<close> prints whole microseconds: one nanosecond is printed as \<open>0\<close> and
  read back as zero.
\<close>

theorem ParseDuration_FormatDuration_counterexample:
  "ParseDuration (FormatDuration 1) = Inr 0 \<and> ParseDuration (FormatDuration 1) \<noteq> Inr 1"
  by code_simp

text \<open>
  Claim C4, amended: for every non-negative duration \<open>d\<close> that is a whole number of
  microseconds, \<open>ParseDuration(FormatDuration(d))\<close> succeeds and returns exactly \<open>d\<close>.
\<close>

theorem ParseDuration_FormatDuration:
  assumes "0 \<le> d" "d < 2 ^ 63" "go_mod d Microsecond = 0"
  shows "ParseDuration (FormatDuration d) = Inr d"
proof -
  have pos: "0 < Millisecond" "0 < Second" "0 < Minute" "0 < Hour" "0 < 24 * Hour"
    "0 < 7 * 24 * Hour" "0 < Microsecond"
    by (simp_all add: Hour_def Minute_def Second_def Millisecond_def Microsecond_def)
  have zero: "ParseDuration ''0s'' = Inr 0"
    by code_simp
  have micro: "ParseDuration (itoa (go_div d Microsecond)) = Inr d"
  proof -
    have "d mod Microsecond = 0" using assms pos by (simp add: go_mod_nonneg)
    then have e: "d div Microsecond * Microsecond = d" by auto
    have "ParseDuration (itoa (d div Microsecond)) = Inr (d div Microsecond * Microsecond)"
      using assms pos e by (intro ParseDuration_digits) (simp_all add: pos_imp_zdiv_nonneg_iff)
    then show ?thesis using assms pos e by (simp add: go_div_nonneg)
  qed
  note rt = round_trip_unit [OF assms(1,2)]
  show ?thesis
    unfolding FormatDuration_def
    using zero micro rt [OF pos(6), of "''w''"] rt [OF pos(5), of "''d''"] rt [OF pos(4), of "''h''"]
      rt [OF pos(3), of "''m''"] rt [OF pos(2), of "''s''"] rt [OF pos(1), of "''ms''"]
    by simp
qed


theorem ParseDuration_FormatDuration_witness:
  "ParseDuration (FormatDuration (90 * Minute)) = Inr (90 * Minute) \<and> FormatDuration (90 * Minute) = ''90m''"
proof -
  have "go_mod (90 * Minute) Microsecond = 0"
    by (simp add: go_mod_def go_div_def Minute_def Second_def Millisecond_def Microsecond_def)
  then have "ParseDuration (FormatDuration (90 * Minute)) = Inr (90 * Minute)"
    by (intro ParseDuration_FormatDuration) (simp_all add: Minute_def Second_def Millisecond_def Microsecond_def)
  moreover have "FormatDuration (90 * Minute) = ''90m''"
    by code_simp
  ultimately show ?thesis by simp
qed


section \<open>The text of a parse error\<close>

lemma strings_Join_Cons: "strings_Join (x # xs) sep = x @ concat (map ((@) sep) xs)"
  by (induction xs arbitrary: x) simp_all


text \<open>
  Claim C8: the text of a parse error is the message, when there is one, and otherwise
  \<open>found <found>, expected <e1>, <e2>, ...\<close>, followed by \<open>at line L, char C\<close>, where
  \<open>L\<close> and \<open>C\<close> are the zero-based line and character of the position plus one.
\<close>

theorem ParseError_Error_rendering:
  assumes "0 \<le> Line (Pos e)" "Line (Pos e) < 2 ^ 63 - 1"
    and "0 \<le> Char' (Pos e)" "Char' (Pos e) < 2 ^ 63 - 1"
  shows "Error e =
    (if Message e \<noteq> [] then Message e
     else ''found '' @ Found e @ '', expected ''
       @ (case Expected e of [] \<Rightarrow> [] | e1 # es \<Rightarrow> e1 @ concat (map ((@) '', '') es)))
    @ '' at line '' @ itoa (Line (Pos e) + 1) @ '', char '' @ itoa (Char' (Pos e) + 1)"
proof -
  have "wrap64 (Line (Pos e) + 1) = Line (Pos e) + 1" "wrap64 (Char' (Pos e) + 1) = Char' (Pos e) + 1"
    using assms by (simp_all add: wrap64_id)
  then show ?thesis
    by (cases "Expected e") (simp_all add: Error_def strings_Join_Cons)
qed

theorem ParseError_Error_rendering_witness:
  "Error \<lparr>Message = ''unable to parse number'', Found = [], Expected = [],
          Pos = \<lparr>Line = 0, Char' = 7\<rparr>\<rparr> = ''unable to parse number at line 1, char 8''
   \<and> Error \<lparr>Message = [], Found = ''EOF'', Expected = ['';'', ''EOF''],
          Pos = \<lparr>Line = 2, Char' = 10\<rparr>\<rparr> = ''found EOF, expected ;, EOF at line 3, char 11''"
proof -
  have "itoa 1 = ''1''" "itoa 8 = ''8''" "itoa 3 = ''3''" "itoa 11 = ''11''"
    by code_simp+
  then show ?thesis
    using ParseError_Error_rendering [of "\<lparr>Message = ''unable to parse number'', Found = [], Expected = [],
          Pos = \<lparr>Line = 0, Char' = 7\<rparr>\<rparr>"]
    ParseError_Error_rendering [of "\<lparr>Message = [], Found = ''EOF'', Expected = ['';'', ''EOF''],
          Pos = \<lparr>Line = 2, Char' = 10\<rparr>\<rparr>"]
    by simp
qed

end
